theory Spec2Isabelle
  imports Complex_Main "HOL-Library.AList"
begin

section \<open>JavaScript values\<close>

text \<open>
  The options of the library are plain JavaScript objects. A value is one of the
  constructors below; an object is an association list from property names to values.
  Finite numbers are reals; \<open>JNaN\<close> and \<open>JInfinity\<close> (with its sign, \<open>True\<close> for
  \<open>+Infinity\<close>) are the non-finite ones. Signed zero and the conversion of strings,
  arrays and objects to numbers are not modelled: such operands give \<open>JNaN\<close>.
\<close>

datatype jsval =
    JUndefined
  | JNull
  | JBool bool
  | JNum real
  | JNaN
  | JInfinity bool
  | JStr string
  | JFun string
  | JArr "jsval list"
  | JObj "(string \<times> jsval) list"

type_synonym jsobj = "(string \<times> jsval) list"

text \<open>Truthiness, as \<open>if (v)\<close> and \<open>v || d\<close> test it.\<close>

fun truthy :: "jsval \<Rightarrow> bool" where
  "truthy JUndefined = False"
| "truthy JNull = False"
| "truthy (JBool b) = b"
| "truthy (JNum r) = (r \<noteq> 0)"
| "truthy JNaN = False"
| "truthy (JInfinity _) = True"
| "truthy (JStr s) = (s \<noteq> [])"
| "truthy (JFun _) = True"
| "truthy (JArr _) = True"
| "truthy (JObj _) = True"

text \<open>\<open>a || b\<close>\<close>

definition js_or :: "jsval \<Rightarrow> jsval \<Rightarrow> jsval" where
  "js_or a b = (if truthy a then a else b)"

text \<open>\<open>obj.k\<close>: a property that is absent reads as \<open>undefined\<close>.\<close>

definition get :: "jsobj \<Rightarrow> string \<Rightarrow> jsval" where
  "get obj k = (case map_of obj k of None \<Rightarrow> JUndefined | Some v \<Rightarrow> v)"

text \<open>\<open>obj.k = v\<close>\<close>

definition put :: "string \<Rightarrow> jsval \<Rightarrow> jsobj \<Rightarrow> jsobj" where
  "put k v obj = AList.update k v obj"

text \<open>\<open>Object.assign(target, source)\<close>: every own property of the source is written
  to the target, in the source's order.\<close>

definition assign :: "jsobj \<Rightarrow> jsobj \<Rightarrow> jsobj" where
  "assign target source = fold (\<lambda>(k, v) t. put k v t) source target"

text \<open>The property names of the indices the code reads (\<open>v[0]\<close>, \<open>v[1]\<close>, \<open>v[2]\<close>).\<close>

definition index_key :: "nat \<Rightarrow> string" where
  "index_key i = (if i = 0 then ''0'' else if i = 1 then ''1'' else ''2'')"

text \<open>\<open>v[i]\<close> for a value that is neither \<open>undefined\<close> nor \<open>null\<close>: an array element, a
  character of a string, the property named by the index of an object; \<open>undefined\<close>
  out of range and on every other value.\<close>

fun index :: "jsval \<Rightarrow> nat \<Rightarrow> jsval" where
  "index (JArr xs) i = (if i < length xs then xs ! i else JUndefined)"
| "index (JStr s) i = (if i < length s then JStr [s ! i] else JUndefined)"
| "index (JObj kv) i = get kv (index_key i)"
| "index _ i = JUndefined"

text \<open>The numeric reading of an operand of \<open>/\<close> and \<open>*\<close>.\<close>

datatype jsnum = Finite real | Infinite bool | NotANumber

fun to_num :: "jsval \<Rightarrow> jsnum" where
  "to_num (JNum r) = Finite r"
| "to_num JNull = Finite 0"
| "to_num (JBool b) = Finite (if b then 1 else 0)"
| "to_num (JInfinity s) = Infinite s"
| "to_num _ = NotANumber"

fun of_num :: "jsnum \<Rightarrow> jsval" where
  "of_num (Finite r) = JNum r"
| "of_num (Infinite s) = JInfinity s"
| "of_num NotANumber = JNaN"

fun num_div :: "jsnum \<Rightarrow> jsnum \<Rightarrow> jsnum" where
  "num_div (Finite a) (Finite b) =
     (if b \<noteq> 0 then Finite (a / b)
      else if a = 0 then NotANumber else Infinite (0 < a))"
| "num_div (Finite a) (Infinite s) = Finite 0"
| "num_div (Infinite s) (Finite b) = Infinite (if b < 0 then \<not> s else s)"
| "num_div _ _ = NotANumber"

fun num_mul :: "jsnum \<Rightarrow> jsnum \<Rightarrow> jsnum" where
  "num_mul (Finite a) (Finite b) = Finite (a * b)"
| "num_mul (Finite a) (Infinite s) =
     (if a = 0 then NotANumber else Infinite (if a < 0 then \<not> s else s))"
| "num_mul (Infinite s) (Finite b) =
     (if b = 0 then NotANumber else Infinite (if b < 0 then \<not> s else s))"
| "num_mul (Infinite s) (Infinite t) = Infinite (s = t)"
| "num_mul _ _ = NotANumber"

definition js_div :: "jsval \<Rightarrow> jsval \<Rightarrow> jsval" where
  "js_div a b = of_num (num_div (to_num a) (to_num b))"

definition js_mul :: "jsval \<Rightarrow> jsval \<Rightarrow> jsval" where
  "js_mul a b = of_num (num_mul (to_num a) (to_num b))"

text \<open>\<open>s.toLowerCase()\<close> on the letters A to Z.\<close>

definition lower_char :: "char \<Rightarrow> char" where
  "lower_char c =
     (case map_of (zip ''ABCDEFGHIJKLMNOPQRSTUVWXYZ'' ''abcdefghijklmnopqrstuvwxyz'') c of
        Some d \<Rightarrow> d
      | None \<Rightarrow> c)"

definition toLowerCase :: "string \<Rightarrow> string" where
  "toLowerCase s = map lower_char s"

text \<open>What the geometry reads from an option: a finite number, or nothing. The
  rectangle lives over the reals, so \<open>null\<close> and every value that is not a finite number
  read as absent; where JavaScript turns \<open>null\<close> into the number 0 (a corner
  coordinate), \<open>number_or_0\<close> does.\<close>

fun as_real :: "jsval \<Rightarrow> real option" where
  "as_real (JNum r) = Some r"
| "as_real _ = None"

definition number_or_0 :: "jsval \<Rightarrow> real" where
  "number_or_0 v = (case as_real v of Some r \<Rightarrow> r | None \<Rightarrow> 0)"

text \<open>\<open>Math.round\<close>: the nearest integer, a half rounds up.\<close>

definition math_round :: "real \<Rightarrow> real" where
  "math_round v = real_of_int \<lfloor>v + 1 / 2\<rfloor>"

text \<open>\<open>Math.round\<close> on a number that may not be finite: \<open>NaN\<close> and the infinities
  stay as they are.\<close>

fun round_num :: "jsnum \<Rightarrow> jsnum" where
  "round_num (Finite r) = Finite (math_round r)"
| "round_num n = n"

text \<open>Whether \<open>String(v)\<close> is written with an exponent: a number that is not zero is,
  when its magnitude is below \<open>1e-6\<close> or at least \<open>1e21\<close> (\<open>1e-7\<close>, \<open>1e+21\<close>).\<close>

definition exponent_form :: "real \<Rightarrow> bool" where
  "exponent_form v = (v \<noteq> 0 \<and> (\<bar>v\<bar> < 1 / 10 ^ 6 \<or> 10 ^ 21 \<le> \<bar>v\<bar>))"

text \<open>Errors the code raises: the string thrown by \<open>parseOptions\<close>, and the
  \<open>TypeError\<close> of a call or property read on a value that has none.\<close>

datatype error = InvalidReturnMode | TypeError

section \<open>The rectangle\<close>

text \<open>Modelled from the spec: the class \<open>Box\<close> (\<open>box.js\<close> is not among the sources),
  "two corner points \<open>(x1,y1)\<close> and \<open>(x2,y2)\<close>" that need not be in order. \<open>Core\<close>
  builds a rectangle with \<open>new Box(x1, y1, x2, y2)\<close> and reads its fields \<open>x1\<close>, \<open>y1\<close>,
  \<open>x2\<close>, \<open>y2\<close>. Coordinates are real numbers.\<close>

record box =
  x1 :: real
  y1 :: real
  x2 :: real
  y2 :: real

type_synonym point = "real \<times> real"

definition Box :: "real \<Rightarrow> real \<Rightarrow> real \<Rightarrow> real \<Rightarrow> box" where
  "Box a b c d = \<lparr>x1 = a, y1 = b, x2 = c, y2 = d\<rparr>"

text \<open>Modelled from the spec: \<open>Box.width\<close> and \<open>Box.height\<close> (\<open>box.js\<close> is missing),
  "absolute difference of corner coordinates; never negative".\<close>

definition width :: "box \<Rightarrow> real" where
  "width b = \<bar>x2 b - x1 b\<bar>"

definition height :: "box \<Rightarrow> real" where
  "height b = \<bar>y2 b - y1 b\<bar>"

text \<open>Modelled from the spec: \<open>Box.getAbsolutePoint\<close> (\<open>box.js\<close> is missing), "maps a
  normalized \<open>[rx,ry]\<close> point to absolute coordinates: \<open>x1 + rx*(x2-x1)\<close>,
  \<open>y1 + ry*(y2-y1)\<close>".\<close>

definition getAbsolutePoint :: "point \<Rightarrow> box \<Rightarrow> point" where
  "getAbsolutePoint p b =
     (x1 b + fst p * (x2 b - x1 b), y1 b + snd p * (y2 b - y1 b))"

text \<open>Modelled from the spec: \<open>Box.move\<close> (\<open>box.js\<close> is missing). It "translates both
  corners by the same delta; \<open>null\<close> for either axis leaves that axis unchanged", the
  delta being the one that brings the first corner to the coordinate given: the region
  drag translates "by \<open>(pointer - offset) - currentCorner\<close>" with
  \<open>move(mouseX - offsetX, mouseY - offsetY)\<close>, it corrects \<open>x1 < 0\<close> with \<open>move(0, null)\<close>,
  and the README has \<open>moveTo(x, y)\<close>, which is \<open>box.move(x, y)\<close>, move "the selected
  region to the specified coordinates".\<close>

definition move :: "real option \<Rightarrow> real option \<Rightarrow> box \<Rightarrow> box" where
  "move x y b =
     (let b = (case x of None \<Rightarrow> b
               | Some x \<Rightarrow> b\<lparr>x1 := x, x2 := x2 b + (x - x1 b)\<rparr>)
      in (case y of None \<Rightarrow> b
          | Some y \<Rightarrow> b\<lparr>y1 := y, y2 := y2 b + (y - y1 b)\<rparr>))"

text \<open>Modelled from the spec: \<open>Box.resize\<close> (\<open>box.js\<close> is missing), "recomputes both
  corners so that the rectangle has the given width/height while the absolute position
  of \<open>anchor\<close> is preserved". The first corner is placed so that the anchor, taken with
  \<open>getAbsolutePoint\<close>, stays where it was, and the second corner follows at the given
  width and height.\<close>

definition resize :: "real \<Rightarrow> real \<Rightarrow> point \<Rightarrow> box \<Rightarrow> box" where
  "resize w h anchor b =
     (let (ax, ay) = getAbsolutePoint anchor b;
          nx = ax - w * fst anchor;
          ny = ay - h * snd anchor
      in Box nx ny (nx + w) (ny + h))"

text \<open>Modelled from the spec: \<open>Box.scale\<close> (\<open>box.js\<close> is missing), "equivalent to
  \<open>resize(width*factor, height*factor, anchor)\<close>".\<close>

definition scale :: "real \<Rightarrow> point \<Rightarrow> box \<Rightarrow> box" where
  "scale factor anchor b = resize (width b * factor) (height b * factor) anchor b"

text \<open>Modelled from the spec: \<open>Box.constrainToRatio\<close> (\<open>box.js\<close> is missing) for a
  ratio that is set and a mode that is given: it "recomputes the other dimension as
  \<open>width*ratio\<close> or \<open>height/ratio\<close>, then calls \<open>resize\<close> with the given anchor". The
  mode names the dimension that is recomputed: \<open>Core\<close> passes \<open>'width'\<close> for the handles
  that move the vertical axis only and \<open>'height'\<close> for those that move the horizontal
  axis only, and the spec has "mode=\<open>height\<leftarrow>width\<close> / \<open>width\<leftarrow>height\<close>" with
  "vertical-only handles derive width from height, horizontal-only handles derive height
  from width". So \<open>'width'\<close> recomputes the width as \<open>height/ratio\<close> and \<open>'height'\<close>
  the height as \<open>width*ratio\<close>.\<close>

definition constrainToRatio :: "real \<Rightarrow> point \<Rightarrow> string \<Rightarrow> box \<Rightarrow> box" where
  "constrainToRatio ratio anchor mode b =
     (if mode = ''width'' then resize (height b / ratio) (height b) anchor b
      else resize (width b) (width b * ratio) anchor b)"

text \<open>The three constraint operations of \<open>Box\<close> as \<open>Core\<close> calls them. Their bodies
  are in \<open>box.js\<close>; \<open>Core\<close> is modelled for any implementation of them.
  \<open>constrainToRatio(ratio, origin, mode)\<close> takes the configured ratio (\<open>null\<close> when none
  is) and the mode, which \<open>initializeBox\<close> leaves out;
  \<open>constrainToSize(maxWidth, maxHeight, minWidth, minHeight, origin, ratio)\<close>;
  \<open>constrainToBoundary(boundaryWidth, boundaryHeight, origin)\<close>.\<close>

record constraints_impl =
  toRatio :: "real option \<Rightarrow> point \<Rightarrow> string option \<Rightarrow> box \<Rightarrow> box"
  toSize :: "real option \<Rightarrow> real option \<Rightarrow> real option \<Rightarrow> real option \<Rightarrow> point \<Rightarrow>
             real option \<Rightarrow> box \<Rightarrow> box"
  toBoundary :: "real \<Rightarrow> real \<Rightarrow> point \<Rightarrow> box \<Rightarrow> box"

section \<open>Handles\<close>

text \<open>A handle: its position on the rectangle as ratios \<open>[X, Y]\<close>, the sides it moves
  as flags \<open>[TOP, RIGHT, BOTTOM, LEFT]\<close>, and its direction.\<close>

record handle =
  position :: point
  constraints :: "nat list"
  direction :: string

definition HANDLES :: "handle list" where
  "HANDLES =
     [\<lparr>position = (0, 0), constraints = [1, 0, 0, 1], direction = ''nw''\<rparr>,
      \<lparr>position = (1 / 2, 0), constraints = [1, 0, 0, 0], direction = ''n''\<rparr>,
      \<lparr>position = (1, 0), constraints = [1, 1, 0, 0], direction = ''ne''\<rparr>,
      \<lparr>position = (1, 1 / 2), constraints = [0, 1, 0, 0], direction = ''e''\<rparr>,
      \<lparr>position = (1, 1), constraints = [0, 1, 1, 0], direction = ''se''\<rparr>,
      \<lparr>position = (1 / 2, 1), constraints = [0, 0, 1, 0], direction = ''s''\<rparr>,
      \<lparr>position = (0, 1), constraints = [0, 0, 1, 1], direction = ''sw''\<rparr>,
      \<lparr>position = (0, 1 / 2), constraints = [0, 0, 0, 1], direction = ''w''\<rparr>]"

text \<open>\<open>handle.constraints[i] === 1\<close>; an index out of range reads \<open>undefined\<close>.\<close>

definition movable :: "handle \<Rightarrow> nat \<Rightarrow> bool" where
  "movable h i = (i < length (constraints h) \<and> constraints h ! i = 1)"

definition TOP_MOVABLE :: "handle \<Rightarrow> bool" where
  "TOP_MOVABLE h = movable h 0"

definition RIGHT_MOVABLE :: "handle \<Rightarrow> bool" where
  "RIGHT_MOVABLE h = movable h 1"

definition BOTTOM_MOVABLE :: "handle \<Rightarrow> bool" where
  "BOTTOM_MOVABLE h = movable h 2"

definition LEFT_MOVABLE :: "handle \<Rightarrow> bool" where
  "LEFT_MOVABLE h = movable h 3"

definition MULTI_AXIS :: "handle \<Rightarrow> bool" where
  "MULTI_AXIS h =
     ((LEFT_MOVABLE h \<or> RIGHT_MOVABLE h) \<and> (TOP_MOVABLE h \<or> BOTTOM_MOVABLE h))"

section \<open>The instance and its surroundings\<close>

text \<open>What the document tells the code: the bounding rectangle of the selection
  element (\<open>selectionEl.getBoundingClientRect()\<close>), its \<open>offsetWidth\<close> and
  \<open>offsetHeight\<close>, and the target element's natural size (\<open>undefined\<close> on an element
  that has none), \<open>width\<close>, \<open>height\<close> and bounding rectangle.\<close>

record dom =
  c_left :: real
  c_top :: real
  c_width :: real
  c_height :: real
  offsetWidth :: real
  offsetHeight :: real
  naturalWidth :: "real option"
  naturalHeight :: "real option"
  el_width :: real
  el_height :: real
  elementWidth :: real
  elementHeight :: real

text \<open>The value of the region, \<open>{x, y, width, height}\<close>; each of the four is a number,
  which may be \<open>NaN\<close> or infinite.\<close>

record cropvalue =
  v_x :: jsnum
  v_y :: jsnum
  v_width :: jsnum
  v_height :: jsnum

text \<open>\<open>this.activeHandle\<close>\<close>

record active_handle =
  a_handle :: handle
  originPoint :: point
  originX :: real
  originY :: real

text \<open>A call of a configured callback with its argument (\<open>getValue()\<close>, which is
  \<open>undefined\<close> for an unknown mode), and a request to draw the region.\<close>

datatype notification = Callback string "cropvalue option" | OnInitialize

record render =
  r_x :: real
  r_y :: real
  r_width :: real
  r_height :: real

text \<open>The instance: \<open>this.options\<close>, \<open>this.box\<close>, \<open>this.activeHandle\<close>,
  \<open>this.currentMove\<close> (\<open>offsetX\<close>, \<open>offsetY\<close>), the variable \<open>tmpBox\<close> of
  \<open>attachOverlayEvents\<close> (set while the overlay's listeners on the document are
  registered), and what the instance has sent out: the callbacks it called and the
  drawings it requested.\<close>

record core =
  options :: jsobj
  box :: box
  activeHandle :: "active_handle option"
  currentMove :: "(real \<times> real) option"
  tmpBox :: "box option"
  called :: "notification list"
  drawn :: "render list"

text \<open>How a method ends: it returns (\<open>undefined\<close>, or \<open>this\<close>), or it throws.\<close>

datatype returned = RetUndefined | RetThis

datatype completion = Returned returned | Threw error

definition and_then ::
  "completion \<times> core \<Rightarrow> (core \<Rightarrow> completion \<times> core) \<Rightarrow> completion \<times> core" where
  "and_then r f = (case fst r of Threw e \<Rightarrow> r | Returned _ \<Rightarrow> f (snd r))"

section \<open>Core\<close>

text \<open>\<open>round(value, decimals)\<close>, which is
  \<open>Number(Math.round(value + 'e' + decimals) + 'e-' + decimals)\<close>. The value is written
  as a string and \<open>'e'\<close> and the decimals are put behind it. When the value is written
  without an exponent, the string reads as the value shifted by \<open>decimals\<close> places;
  \<open>Math.round\<close> rounds it, and the integer, written again with \<open>'e-'\<close> and the decimals
  behind it, reads as the integer shifted back. When the value, or the integer, is
  written with an exponent itself (\<open>'1e-7e3'\<close>), or is \<open>NaN\<close> or infinite
  (\<open>'Infinitye3'\<close>), the string is no number and the result is \<open>NaN\<close>.\<close>

fun round_js :: "jsnum \<Rightarrow> nat \<Rightarrow> jsnum" where
  "round_js (Finite v) decimals =
     (if exponent_form v then NotANumber
      else (let m = math_round (v * 10 ^ decimals)
            in if exponent_form m then NotANumber else Finite (m / 10 ^ decimals)))"
| "round_js _ decimals = NotANumber"

text \<open>\<open>getValue(mode = null)\<close>: a mode that is left out or \<open>null\<close> is the configured
  return mode; a mode that is none of the three strings gives \<open>undefined\<close>.\<close>

definition getValue :: "dom \<Rightarrow> core \<Rightarrow> jsval \<Rightarrow> cropvalue option" where
  "getValue d s mode0 =
     (let mode = (if mode0 = JNull \<or> mode0 = JUndefined then get (options s) ''returnMode''
                  else mode0)
      in if mode = JStr ''real'' then
           let actualWidth = (case naturalWidth d of
                                Some n \<Rightarrow> if n \<noteq> 0 then n else el_width d
                              | None \<Rightarrow> el_width d);
               actualHeight = (case naturalHeight d of
                                 Some n \<Rightarrow> if n \<noteq> 0 then n else el_height d
                               | None \<Rightarrow> el_height d);
               factorX = num_div
                           (Finite (if actualWidth \<noteq> 0 then actualWidth else elementWidth d))
                           (Finite (elementWidth d));
               factorY = num_div
                           (Finite (if actualHeight \<noteq> 0 then actualHeight else elementHeight d))
                           (Finite (elementHeight d))
           in Some \<lparr>v_x = round_num (num_mul (Finite (x1 (box s))) factorX),
                    v_y = round_num (num_mul (Finite (y1 (box s))) factorY),
                    v_width = round_num (num_mul (Finite (width (box s))) factorX),
                    v_height = round_num (num_mul (Finite (height (box s))) factorY)\<rparr>
         else if mode = JStr ''ratio'' then
           Some \<lparr>v_x = round_js (num_div (Finite (x1 (box s))) (Finite (elementWidth d))) 3,
                 v_y = round_js (num_div (Finite (y1 (box s))) (Finite (elementHeight d))) 3,
                 v_width =
                   round_js (num_div (Finite (width (box s))) (Finite (elementWidth d))) 3,
                 v_height =
                   round_js (num_div (Finite (height (box s))) (Finite (elementHeight d))) 3\<rparr>
         else if mode = JStr ''raw'' then
           Some \<lparr>v_x = round_num (Finite (x1 (box s))),
                 v_y = round_num (Finite (y1 (box s))),
                 v_width = round_num (Finite (width (box s))),
                 v_height = round_num (Finite (height (box s)))\<rparr>
         else None)"

text \<open>\<open>if (this.options.name !== null) { this.options.name(this.getValue()); }\<close>\<close>

definition fire :: "string \<Rightarrow> dom \<Rightarrow> core \<Rightarrow> completion \<times> core" where
  "fire name d s =
     (case get (options s) name of
        JNull \<Rightarrow> (Returned RetUndefined, s)
      | JFun f \<Rightarrow>
          (Returned RetUndefined, s\<lparr>called := called s @ [Callback name (getValue d s JNull)]\<rparr>)
      | _ \<Rightarrow> (Threw TypeError, s))"

definition redraw :: "core \<Rightarrow> core" where
  "redraw s =
     s\<lparr>drawn := drawn s @
          [\<lparr>r_x = math_round (x1 (box s)), r_y = math_round (y1 (box s)),
            r_width = math_round (width (box s)),
            r_height = math_round (height (box s))\<rparr>]\<rparr>"

text \<open>\<open>size.width\<close> and \<open>size.height\<close> of an option entry; reading a property of
  \<open>undefined\<close> or \<open>null\<close> throws.\<close>

definition dims :: "jsval \<Rightarrow> error + (jsval \<times> jsval)" where
  "dims v =
     (case v of
        JUndefined \<Rightarrow> Inl TypeError
      | JNull \<Rightarrow> Inl TypeError
      | JObj kv \<Rightarrow> Inr (get kv ''width'', get kv ''height'')
      | _ \<Rightarrow> Inr (JUndefined, JUndefined))"

definition initializeBox :: "constraints_impl \<Rightarrow> dom \<Rightarrow> jsobj \<Rightarrow> error + box" where
  "initializeBox E d opts =
     (case dims (get opts ''startSize'') of
        Inl e \<Rightarrow> Inl e
      | Inr (w, h) \<Rightarrow>
         (case dims (get opts ''maxSize'') of
            Inl e \<Rightarrow> Inl e
          | Inr (maxw, maxh) \<Rightarrow>
             (case dims (get opts ''minSize'') of
                Inl e \<Rightarrow> Inl e
              | Inr (minw, minh) \<Rightarrow>
                  (let b = Box 0 0 (number_or_0 w) (number_or_0 h);
                       ratio = as_real (get opts ''aspectRatio'');
                       b = toRatio E ratio (1 / 2, 1 / 2) None b;
                       b = toSize E (as_real maxw) (as_real maxh) (as_real minw)
                             (as_real minh) (1 / 2, 1 / 2) ratio b;
                       b = toBoundary E (offsetWidth d) (offsetHeight d) (1 / 2, 1 / 2) b;
                       x = offsetWidth d / 2 - width b / 2;
                       y = offsetHeight d / 2 - height b / 2
                   in Inr (move (Some x) (Some y) b)))))"

text \<open>\<open>onHandleMoveStart(e)\<close>, with the handle of the event.\<close>

definition onHandleMoveStart :: "dom \<Rightarrow> handle \<Rightarrow> core \<Rightarrow> completion \<times> core" where
  "onHandleMoveStart d h s =
     (let origin = (1 - fst (position h), 1 - snd (position h));
          (ox, oy) = getAbsolutePoint origin (box s);
          s = s\<lparr>activeHandle :=
                 Some \<lparr>a_handle = h, originPoint = origin, originX = ox, originY = oy\<rparr>\<rparr>
      in fire ''onSelectStart'' d s)"

text \<open>\<open>onHandleMoveMoving\<close>, in the steps of its body. The pointer is first brought
  into the container.\<close>

definition clampMouse :: "real \<Rightarrow> real \<Rightarrow> real" where
  "clampMouse m bound = (if m < 0 then 0 else if m > bound then bound else m)"

text \<open>The four edges \<open>(x1, y1, x2, y2)\<close> after the movement is applied to the sides the
  handle moves, before any flip.\<close>

definition movedEdges :: "active_handle \<Rightarrow> box \<Rightarrow> real \<Rightarrow> real \<Rightarrow> real \<times> real \<times> real \<times> real" where
  "movedEdges a cur mouseX mouseY =
     (let h = a_handle a;
          ex1 = (if LEFT_MOVABLE h \<or> RIGHT_MOVABLE h then originX a else x1 cur);
          ex2 = (if LEFT_MOVABLE h \<or> RIGHT_MOVABLE h then originX a else x2 cur);
          ey1 = (if TOP_MOVABLE h \<or> BOTTOM_MOVABLE h then originY a else y1 cur);
          ey2 = (if TOP_MOVABLE h \<or> BOTTOM_MOVABLE h then originY a else y2 cur);
          ex1 = (if LEFT_MOVABLE h then mouseX else ex1);
          ex2 = (if RIGHT_MOVABLE h then mouseX else ex2);
          ey1 = (if TOP_MOVABLE h then mouseY else ey1);
          ey2 = (if BOTTOM_MOVABLE h then mouseY else ey2)
      in (ex1, ey1, ex2, ey2))"

definition isFlippedX :: "active_handle \<Rightarrow> real \<Rightarrow> bool" where
  "isFlippedX a mouseX =
     (let h = a_handle a
      in if LEFT_MOVABLE h \<or> RIGHT_MOVABLE h
         then (if LEFT_MOVABLE h then mouseX > originX a else mouseX < originX a)
         else False)"

definition isFlippedY :: "active_handle \<Rightarrow> real \<Rightarrow> bool" where
  "isFlippedY a mouseY =
     (let h = a_handle a
      in if TOP_MOVABLE h \<or> BOTTOM_MOVABLE h
         then (if TOP_MOVABLE h then mouseY > originY a else mouseY < originY a)
         else False)"

text \<open>The swap of the coordinates and the flip of the origin point, and the new box
  object built from the result.\<close>

definition flipped :: "bool \<Rightarrow> bool \<Rightarrow> real \<times> real \<times> real \<times> real \<Rightarrow> point \<Rightarrow> box \<times> point" where
  "flipped fx fy edges origin =
     (let (ex1, ey1, ex2, ey2) = edges;
          (ex1, ex2, ox) = (if fx then (ex2, ex1, 1 - fst origin) else (ex1, ex2, fst origin));
          (ey1, ey2, oy) = (if fy then (ey2, ey1, 1 - snd origin) else (ey1, ey2, snd origin))
      in (Box ex1 ey1 ex2 ey2, (ox, oy)))"

definition movedBox :: "active_handle \<Rightarrow> box \<Rightarrow> real \<Rightarrow> real \<Rightarrow> box \<times> point" where
  "movedBox a cur mouseX mouseY =
     flipped (isFlippedX a mouseX) (isFlippedY a mouseY) (movedEdges a cur mouseX mouseY)
       (originPoint a)"

text \<open>The mode given to \<open>constrainToRatio\<close>.\<close>

definition ratioMode :: "handle \<Rightarrow> real \<Rightarrow> box \<Rightarrow> real \<Rightarrow> string" where
  "ratioMode h ratio b mouseY =
     (let isVerticalMovement =
            (if MULTI_AXIS h
             then mouseY > y1 b + ratio * width b \<or> mouseY < y2 b - ratio * width b
             else if TOP_MOVABLE h \<or> BOTTOM_MOVABLE h then True
             else False)
      in if isVerticalMovement then ''width'' else ''height'')"

text \<open>The normalisation of the new box: the aspect ratio if one is set, the sizes, the
  boundary.\<close>

definition constrained ::
  "constraints_impl \<Rightarrow> dom \<Rightarrow> jsobj \<Rightarrow> handle \<Rightarrow> real \<Rightarrow> box \<times> point \<Rightarrow> error + box" where
  "constrained E d opts h mouseY bo =
     (let (b, origin) = bo;
          aspectRatio = get opts ''aspectRatio'';
          b = (if truthy aspectRatio
               then toRatio E (as_real aspectRatio) origin
                      (Some (ratioMode h (number_or_0 aspectRatio) b mouseY)) b
               else b)
      in case dims (get opts ''maxSize'') of
           Inl e \<Rightarrow> Inl e
         | Inr (maxw, maxh) \<Rightarrow>
            (case dims (get opts ''minSize'') of
               Inl e \<Rightarrow> Inl e
             | Inr (minw, minh) \<Rightarrow>
                 (let b = toSize E (as_real maxw) (as_real maxh) (as_real minw)
                            (as_real minh) origin (as_real aspectRatio) b;
                      b = toBoundary E (offsetWidth d) (offsetHeight d) origin b
                  in Inr b)))"

definition onHandleMoveMoving ::
  "constraints_impl \<Rightarrow> dom \<Rightarrow> real \<Rightarrow> real \<Rightarrow> core \<Rightarrow> completion \<times> core" where
  "onHandleMoveMoving E d mouseX0 mouseY0 s =
     (case activeHandle s of
        None \<Rightarrow> (Threw TypeError, s)
      | Some a \<Rightarrow>
         (let mouseX = clampMouse (mouseX0 - c_left d) (c_width d);
              mouseY = clampMouse (mouseY0 - c_top d) (c_height d)
          in case constrained E d (options s) (a_handle a) mouseY
                    (movedBox a (box s) mouseX mouseY) of
               Inl e \<Rightarrow> (Threw e, s)
             | Inr b \<Rightarrow> fire ''onSelectMove'' d (redraw (s\<lparr>box := b\<rparr>))))"

definition onHandleMoveEnd :: "dom \<Rightarrow> core \<Rightarrow> completion \<times> core" where
  "onHandleMoveEnd d s = fire ''onSelectEnd'' d s"

text \<open>The region drag.\<close>

definition onRegionMoveStart :: "dom \<Rightarrow> real \<Rightarrow> real \<Rightarrow> core \<Rightarrow> completion \<times> core" where
  "onRegionMoveStart d mouseX0 mouseY0 s =
     (let mouseX = mouseX0 - c_left d;
          mouseY = mouseY0 - c_top d;
          s = s\<lparr>currentMove := Some (mouseX - x1 (box s), mouseY - y1 (box s))\<rparr>
      in fire ''onSelectStart'' d s)"

text \<open>The box of \<open>onRegionMoveMoving\<close>: moved to the pointer less the offset, then
  kept within the boundaries.\<close>

definition movedRegion :: "dom \<Rightarrow> real \<Rightarrow> real \<Rightarrow> box \<Rightarrow> box" where
  "movedRegion d tx ty b0 =
     (let b = move (Some tx) (Some ty) b0;
          b = (if x1 b < 0 then move (Some 0) None b else b);
          b = (if x2 b > c_width d then move (Some (c_width d - width b)) None b else b);
          b = (if y1 b < 0 then move None (Some 0) b else b);
          b = (if y2 b > c_height d then move None (Some (c_height d - height b)) b else b)
      in b)"

definition onRegionMoveMoving :: "dom \<Rightarrow> real \<Rightarrow> real \<Rightarrow> core \<Rightarrow> completion \<times> core" where
  "onRegionMoveMoving d mouseX0 mouseY0 s =
     (case currentMove s of
        None \<Rightarrow> (Threw TypeError, s)
      | Some (offsetX, offsetY) \<Rightarrow>
         (let mouseX = mouseX0 - c_left d;
              mouseY = mouseY0 - c_top d;
              s = s\<lparr>box := movedRegion d (mouseX - offsetX) (mouseY - offsetY) (box s)\<rparr>
          in fire ''onSelectMove'' d (redraw s)))"

definition onRegionMoveEnd :: "dom \<Rightarrow> core \<Rightarrow> completion \<times> core" where
  "onRegionMoveEnd d s = fire ''onSelectEnd'' d s"

text \<open>\<open>eventBus.dispatchEvent\<close> runs the listener at once; what a listener throws is
  reported, not passed to the dispatcher.\<close>

definition dispatchEvent :: "(core \<Rightarrow> completion \<times> core) \<Rightarrow> core \<Rightarrow> core" where
  "dispatchEvent listener s = snd (listener s)"

text \<open>The overlay: the three listeners of \<open>attachOverlayEvents\<close>. The listeners of
  \<open>mousemove\<close> and \<open>mouseup\<close> are registered by \<open>onMouseDown\<close> and removed by
  \<open>onMouseUp\<close>; they run only in between. \<open>tmpBox\<close> is set exactly while they are
  registered: after \<open>onMouseUp\<close> its value is not read again before \<open>onMouseDown\<close>
  overwrites it.\<close>

definition SOUTHEAST_HANDLE_IDX :: nat where
  "SOUTHEAST_HANDLE_IDX = 4"

definition overlay_onMouseDown :: "dom \<Rightarrow> real \<Rightarrow> real \<Rightarrow> core \<Rightarrow> core" where
  "overlay_onMouseDown d clientX clientY s =
     (let mouseX = clientX - c_left d;
          mouseY = clientY - c_top d;
          s = s\<lparr>tmpBox := Some (box s)\<rparr>;
          s = s\<lparr>box := Box mouseX mouseY (mouseX + 1) (mouseY + 1)\<rparr>
      in dispatchEvent (onHandleMoveStart d (HANDLES ! SOUTHEAST_HANDLE_IDX)) s)"

definition overlay_onMouseMove ::
  "constraints_impl \<Rightarrow> dom \<Rightarrow> real \<Rightarrow> real \<Rightarrow> core \<Rightarrow> core" where
  "overlay_onMouseMove E d clientX clientY s =
     (case tmpBox s of
        None \<Rightarrow> s
      | Some _ \<Rightarrow> dispatchEvent (onHandleMoveMoving E d clientX clientY) s)"

definition overlay_onMouseUp :: "dom \<Rightarrow> core \<Rightarrow> core" where
  "overlay_onMouseUp d s =
     (case tmpBox s of
        None \<Rightarrow> s
      | Some saved \<Rightarrow>
          if width (box s) = 1 \<and> height (box s) = 1
          then s\<lparr>box := saved, tmpBox := None\<rparr>
          else dispatchEvent (onHandleMoveEnd d) (s\<lparr>tmpBox := None\<rparr>))"

text \<open>A whole gesture on the overlay: the button goes down, the pointer moves through
  the given positions, the button goes up.\<close>

definition overlayGesture ::
  "constraints_impl \<Rightarrow> dom \<Rightarrow> point \<Rightarrow> point list \<Rightarrow> core \<Rightarrow> core" where
  "overlayGesture E d down moves s =
     overlay_onMouseUp d
       (fold (\<lambda>p. overlay_onMouseMove E d (fst p) (snd p)) moves
          (overlay_onMouseDown d (fst down) (snd down) s))"

text \<open>\<open>Core.parseOptions\<close>. A size is read from \<open>[width, height, unit]\<close>.\<close>

definition parseSize :: "jsval \<Rightarrow> string \<Rightarrow> jsval" where
  "parseSize v defaultUnit =
     (if v \<noteq> JUndefined \<and> v \<noteq> JNull
      then JObj [(''width'', js_or (index v 0) JNull),
                 (''height'', js_or (index v 1) JNull),
                 (''unit'', js_or (index v 2) (JStr defaultUnit))]
      else JNull)"

definition parseCallback :: "jsval \<Rightarrow> jsval" where
  "parseCallback v = (case v of JFun f \<Rightarrow> JFun f | _ \<Rightarrow> JNull)"

definition parseAspectRatio :: "jsval \<Rightarrow> jsval" where
  "parseAspectRatio v =
     (case v of
        JNum r \<Rightarrow> JNum r
      | JNaN \<Rightarrow> JNaN
      | JInfinity b \<Rightarrow> JInfinity b
      | JArr xs \<Rightarrow> js_div (index (JArr xs) 1) (index (JArr xs) 0)
      | _ \<Rightarrow> JNull)"

definition parseReturnMode :: "jsval \<Rightarrow> error + jsval" where
  "parseReturnMode v =
     (case v of
        JUndefined \<Rightarrow> Inr JNull
      | JStr str \<Rightarrow>
          (let low = toLowerCase str
           in if low \<notin> set [''real'', ''ratio'', ''raw''] then Inl InvalidReturnMode
              else Inr (JStr low))
      | _ \<Rightarrow> Inl TypeError)"

definition defaultValue :: "jsval \<Rightarrow> jsval \<Rightarrow> jsval" where
  "defaultValue v d = (if v \<noteq> JNull then v else d)"

definition parseOptions :: "jsobj \<Rightarrow> error + jsobj" where
  "parseOptions opts =
     (let aspectRatio = parseAspectRatio (get opts ''aspectRatio'');
          maxSize = parseSize (get opts ''maxSize'') ''px'';
          minSize = parseSize (get opts ''minSize'') ''px'';
          startSize = parseSize (get opts ''startSize'') ''%'';
          onInitialize = parseCallback (get opts ''onInitialize'');
          onSelectStart = parseCallback (get opts ''onSelectStart'');
          onSelectEnd = parseCallback (get opts ''onSelectEnd'');
          onSelectMove = parseCallback (get opts ''onSelectMove'')
      in case parseReturnMode (get opts ''returnMode'') of
           Inl e \<Rightarrow> Inl e
         | Inr returnMode \<Rightarrow>
             Inr [(''aspectRatio'', defaultValue aspectRatio JNull),
                  (''maxSize'', defaultValue maxSize
                     (JObj [(''width'', JNull), (''height'', JNull)])),
                  (''minSize'', defaultValue minSize
                     (JObj [(''width'', JNull), (''height'', JNull)])),
                  (''startSize'', defaultValue startSize
                     (JObj [(''width'', JNum 100), (''height'', JNum 100),
                            (''unit'', JStr ''%'')])),
                  (''returnMode'', defaultValue returnMode (JStr ''real'')),
                  (''onInitialize'', defaultValue onInitialize JNull),
                  (''onSelectStart'', defaultValue onSelectStart JNull),
                  (''onSelectMove'', defaultValue onSelectMove JNull),
                  (''onSelectEnd'', defaultValue onSelectEnd JNull),
                  (''convertToPixels'', JFun ''convertToPixels'')])"

text \<open>\<open>convertToPixels(container)\<close>, the function \<open>parseOptions\<close> puts in the options:
  one size, and the three sizes in turn.\<close>

definition convertSize :: "dom \<Rightarrow> jsval \<Rightarrow> error + jsval" where
  "convertSize d v =
     (case v of
        JNull \<Rightarrow> Inr JNull
      | JUndefined \<Rightarrow> Inl TypeError
      | JObj kv \<Rightarrow>
          (let kv = (if get kv ''unit'' = JStr ''%''
                     then (let kv = (if get kv ''width'' \<noteq> JNull
                                     then put ''width''
                                            (js_mul (js_div (get kv ''width'') (JNum 100))
                                               (JNum (offsetWidth d))) kv
                                     else kv);
                               kv = (if get kv ''height'' \<noteq> JNull
                                     then put ''height''
                                            (js_mul (js_div (get kv ''height'') (JNum 100))
                                               (JNum (offsetHeight d))) kv
                                     else kv)
                           in kv)
                     else kv)
           in Inr (JObj (AList.delete ''unit'' kv)))
      | _ \<Rightarrow> Inr v)"

fun convertKeys :: "dom \<Rightarrow> string list \<Rightarrow> jsobj \<Rightarrow> error + jsobj" where
  "convertKeys d [] this = Inr this"
| "convertKeys d (key # keys) this =
     (case convertSize d (get this key) of
        Inl e \<Rightarrow> Inl e
      | Inr v \<Rightarrow> convertKeys d keys (put key v this))"

definition convertToPixels :: "dom \<Rightarrow> jsobj \<Rightarrow> error + jsobj" where
  "convertToPixels d this = convertKeys d [''maxSize'', ''minSize'', ''startSize''] this"

text \<open>The constructor on an element that is loaded, and \<open>initialize\<close>: the options are
  parsed and converted to pixels, the box is built and drawn, \<open>onInitialize\<close> is
  called. An error leaves no instance.\<close>

definition initialize :: "constraints_impl \<Rightarrow> dom \<Rightarrow> jsobj \<Rightarrow> error + core" where
  "initialize E d opts =
     (case convertToPixels d opts of
        Inl e \<Rightarrow> Inl e
      | Inr opts \<Rightarrow>
         (case initializeBox E d opts of
            Inl e \<Rightarrow> Inl e
          | Inr b \<Rightarrow>
             (let s = redraw \<lparr>options = opts, box = b, activeHandle = None,
                              currentMove = None, tmpBox = None, called = [], drawn = []\<rparr>
              in case get opts ''onInitialize'' of
                   JNull \<Rightarrow> Inr s
                 | JFun f \<Rightarrow> Inr (s\<lparr>called := called s @ [OnInitialize]\<rparr>)
                 | _ \<Rightarrow> Inl TypeError)))"

definition newCore :: "constraints_impl \<Rightarrow> dom \<Rightarrow> jsobj \<Rightarrow> error + core" where
  "newCore E d opts =
     (case parseOptions opts of
        Inl e \<Rightarrow> Inl e
      | Inr parsed \<Rightarrow> initialize E d parsed)"

text \<open>\<open>setOptions(opts)\<close>: \<open>Object.assign\<close> writes the given entries into the object
  \<open>this.options\<close> refers to, the result is parsed, and only then \<open>this.options\<close> is
  set to the parsed options.\<close>

definition setOptions :: "constraints_impl \<Rightarrow> dom \<Rightarrow> jsobj \<Rightarrow> core \<Rightarrow> completion \<times> core" where
  "setOptions E d opts s =
     (let s = s\<lparr>options := assign (options s) opts\<rparr>
      in case parseOptions (options s) of
           Inl e \<Rightarrow> (Threw e, s)
         | Inr parsed \<Rightarrow>
            (let s = s\<lparr>options := parsed\<rparr>
             in case initializeBox E d (options s) of
                  Inl e \<Rightarrow> (Threw e, s)
                | Inr b \<Rightarrow> (Returned RetUndefined, redraw (s\<lparr>box := b\<rparr>))))"

section \<open>AreaSelection\<close>

text \<open>The methods the wrapper class adds to \<open>Core\<close>. An origin that is left out is
  \<open>[.5, .5]\<close>.\<close>

definition returnThis :: "core \<Rightarrow> completion \<times> core" where
  "returnThis s = (Returned RetThis, s)"

definition moveTo :: "dom \<Rightarrow> real \<Rightarrow> real \<Rightarrow> core \<Rightarrow> completion \<times> core" where
  "moveTo d x y s =
     (let s = s\<lparr>box := move (Some x) (Some y) (box s)\<rparr>;
          s = redraw s
      in and_then (fire ''onSelectEnd'' d s) returnThis)"

definition resizeTo :: "dom \<Rightarrow> real \<Rightarrow> real \<Rightarrow> point option \<Rightarrow> core \<Rightarrow> completion \<times> core" where
  "resizeTo d w h origin s =
     (let origin = (case origin of None \<Rightarrow> (1 / 2, 1 / 2) | Some p \<Rightarrow> p);
          s = s\<lparr>box := resize w h origin (box s)\<rparr>;
          s = redraw s
      in and_then (fire ''onSelectEnd'' d s) returnThis)"

definition scaleBy :: "dom \<Rightarrow> real \<Rightarrow> point option \<Rightarrow> core \<Rightarrow> completion \<times> core" where
  "scaleBy d factor origin s =
     (let origin = (case origin of None \<Rightarrow> (1 / 2, 1 / 2) | Some p \<Rightarrow> p);
          s = s\<lparr>box := scale factor origin (box s)\<rparr>;
          s = redraw s
      in and_then (fire ''onSelectEnd'' d s) returnThis)"

definition reset :: "constraints_impl \<Rightarrow> dom \<Rightarrow> core \<Rightarrow> completion \<times> core" where
  "reset E d s =
     (case initializeBox E d (options s) of
        Inl e \<Rightarrow> (Threw e, s)
      | Inr b \<Rightarrow>
         (let s = s\<lparr>box := b\<rparr>;
              s = redraw s
          in and_then (fire ''onSelectEnd'' d s) returnThis))"

section \<open>Notions used to state the properties\<close>

text \<open>\<open>r\<close> is \<open>q\<close> rounded to \<open>n\<close> decimal places: it has at most \<open>n\<close> decimals and is
  at most half a unit of the last place away from \<open>q\<close>.\<close>

definition rounded_to :: "nat \<Rightarrow> real \<Rightarrow> real \<Rightarrow> bool" where
  "rounded_to n q r = (r * 10 ^ n \<in> \<int> \<and> \<bar>r - q\<bar> \<le> 1 / (2 * 10 ^ n))"

text \<open>A document whose selection element sits at the origin and is 100 by 100, as is
  the target element; and an instance at rest with a given box and options.\<close>

definition dom100 :: dom where
  "dom100 =
     \<lparr>c_left = 0, c_top = 0, c_width = 100, c_height = 100,
      offsetWidth = 100, offsetHeight = 100,
      naturalWidth = Some 100, naturalHeight = Some 100,
      el_width = 100, el_height = 100,
      elementWidth = 100, elementHeight = 100\<rparr>"

definition at_rest :: "jsobj \<Rightarrow> box \<Rightarrow> core" where
  "at_rest opts b =
     \<lparr>options = opts, box = b, activeHandle = None, currentMove = None, tmpBox = None,
      called = [], drawn = []\<rparr>"

text \<open>The options of an instance made with the return mode \<open>'RAW'\<close> and the three
  selection callbacks, as \<open>parseOptions\<close> gives them.\<close>

definition example_options :: jsobj where
  "example_options =
     (case parseOptions [(''returnMode'', JStr ''RAW''), (''onSelectStart'', JFun ''start''),
                         (''onSelectMove'', JFun ''move''), (''onSelectEnd'', JFun ''end'')] of
        Inr parsed \<Rightarrow> parsed
      | Inl e \<Rightarrow> [])"

text \<open>An implementation of the three constraint operations, to run the code on
  examples: the ratio as \<open>constrainToRatio\<close> does when one is set (the mode \<open>'height'\<close>
  when none is given), each dimension clamped to its bounds, and each dimension cut to
  the boundary.\<close>

definition clampTo :: "real option \<Rightarrow> real option \<Rightarrow> real \<Rightarrow> real" where
  "clampTo lo hi v =
     (let v = (case hi of None \<Rightarrow> v | Some m \<Rightarrow> if v > m then m else v)
      in case lo of None \<Rightarrow> v | Some m \<Rightarrow> if v < m then m else v)"

definition example_constraints :: constraints_impl where
  "example_constraints =
     \<lparr>toRatio = (\<lambda>ratio origin mode b.
          case ratio of
            None \<Rightarrow> b
          | Some r \<Rightarrow> constrainToRatio r origin
                       (case mode of None \<Rightarrow> ''height'' | Some m \<Rightarrow> m) b),
      toSize = (\<lambda>maxw maxh minw minh origin ratio b.
          resize (clampTo minw maxw (width b)) (clampTo minh maxh (height b)) origin b),
      toBoundary = (\<lambda>w h origin b.
          resize (clampTo None (Some w) (width b)) (clampTo None (Some h) (height b))
            origin b)\<rparr>"

text \<open>An instance made in the 100 by 100 document with a start size of 50 percent,
  the return mode \<open>'RAW'\<close> and the three selection callbacks; and its options once
  parsed and converted to pixels.\<close>

definition example_instance :: core where
  "example_instance =
     (case newCore example_constraints dom100
             [(''returnMode'', JStr ''RAW''), (''startSize'', JArr [JNum 50, JNum 50]),
              (''onSelectStart'', JFun ''start''),
              (''onSelectMove'', JFun ''move''), (''onSelectEnd'', JFun ''end'')] of
        Inr s \<Rightarrow> s
      | Inl e \<Rightarrow> at_rest [] (Box 0 0 0 0))"

definition example_converted :: jsobj where
  "example_converted =
     [(''aspectRatio'', JNull),
      (''maxSize'', JObj [(''width'', JNull), (''height'', JNull)]),
      (''minSize'', JObj [(''width'', JNull), (''height'', JNull)]),
      (''startSize'', JObj [(''width'', JNum 50), (''height'', JNum 50)]),
      (''returnMode'', JStr ''raw''),
      (''onInitialize'', JNull),
      (''onSelectStart'', JFun ''start''),
      (''onSelectMove'', JFun ''move''),
      (''onSelectEnd'', JFun ''end''),
      (''convertToPixels'', JFun ''convertToPixels'')]"

text \<open>What a call of one of the methods \<open>moveTo\<close>, \<open>resizeTo\<close>, \<open>scaleBy\<close>,
  \<open>reset\<close> comes to, from the instance \<open>s\<close> to the result \<open>r\<close> with the box \<open>b\<close>: it
  returns \<open>this\<close> and has called \<open>onSelectEnd\<close> once, with the value of the instance
  as it is now, and nothing else of a selection has changed; or it returns \<open>this\<close> and
  has called nothing.\<close>

definition fires_end :: "dom \<Rightarrow> core \<Rightarrow> box \<Rightarrow> completion \<times> core \<Rightarrow> bool" where
  "fires_end d s b r =
     (fst r = Returned RetThis
      \<and> box (snd r) = b
      \<and> called (snd r) = called s @ [Callback ''onSelectEnd'' (getValue d (snd r) JNull)]
      \<and> options (snd r) = options s
      \<and> activeHandle (snd r) = activeHandle s
      \<and> currentMove (snd r) = currentMove s
      \<and> tmpBox (snd r) = tmpBox s)"

definition stays_silent :: "core \<Rightarrow> box \<Rightarrow> completion \<times> core \<Rightarrow> bool" where
  "stays_silent s b r =
     (fst r = Returned RetThis \<and> box (snd r) = b \<and> called (snd r) = called s)"

text \<open>The options of the example with an aspect ratio of 2 and a maximum width of 30.\<close>

definition ratio_options :: jsobj where
  "ratio_options =
     put ''aspectRatio'' (JNum 2)
       (put ''maxSize'' (JObj [(''width'', JNum 30), (''height'', JNull)]) example_converted)"

section \<open>Properties\<close>

subsection \<open>The region drag\<close>

lemma width_move: "width (move x y b) = width b"
  by (cases x; cases y; simp add: move_def width_def)

lemma height_move: "height (move x y b) = height b"
  by (cases x; cases y; simp add: move_def height_def)

lemma move_first_corner: "x1 (move (Some x) (Some y) b) = x" "y1 (move (Some x) (Some y) b) = y"
  by (simp_all add: move_def)

lemma width_movedRegion: "width (movedRegion d tx ty b) = width b"
  by (simp add: movedRegion_def Let_def width_move)

lemma height_movedRegion: "height (movedRegion d tx ty b) = height b"
  by (simp add: movedRegion_def Let_def height_move)

lemma movedRegion_x:
  assumes "x1 b \<le> x2 b" "width b \<le> c_width d"
  shows "x1 (movedRegion d tx ty b) = (if tx < 0 then 0 else if tx + width b > c_width d then c_width d - width b else tx)"
   and "x2 (movedRegion d tx ty b) = x1 (movedRegion d tx ty b) + width b"
  using assms by (auto simp add: movedRegion_def Let_def move_def width_def)

lemma movedRegion_y:
  assumes "y1 b \<le> y2 b" "height b \<le> c_height d"
  shows "y1 (movedRegion d tx ty b) = (if ty < 0 then 0 else if ty + height b > c_height d then c_height d - height b else ty)"
   and "y2 (movedRegion d tx ty b) = y1 (movedRegion d tx ty b) + height b"
  using assms by (auto simp add: movedRegion_def Let_def move_def height_def)

lemma movedRegion_inside:
  "\<not> (x1 (move (Some tx) (Some ty) b) < 0) \<Longrightarrow> \<not> (x2 (move (Some tx) (Some ty) b) > c_width d)
   \<Longrightarrow> \<not> (y1 (move (Some tx) (Some ty) b) < 0) \<Longrightarrow> \<not> (y2 (move (Some tx) (Some ty) b) > c_height d)
   \<Longrightarrow> movedRegion d tx ty b = move (Some tx) (Some ty) b"
  by (simp add: movedRegion_def Let_def)

lemma onRegionMoveMoving_box:
  "currentMove s = Some (ox, oy) \<Longrightarrow>
   box (snd (onRegionMoveMoving d mx my s)) = movedRegion d (mx - c_left d - ox) (my - c_top d - oy) (box s)"
  by (simp add: onRegionMoveMoving_def Let_def fire_def redraw_def split: jsval.splits)


text \<open>
  C5. A move step of the region drag first translates the rectangle so that its first
  corner is at the pointer less the captured offset, and then tests each edge against
  the container (\<open>x1 < 0\<close>, \<open>x2 > width\<close>, \<open>y1 < 0\<close>, \<open>y2 > height\<close>), moving
  the rectangle when an edge is beyond its bound: \<open>width()\<close> and \<open>height()\<close> after the
  clamp are those before it. When no edge is beyond its bound the translated rectangle
  stays as it is, and a rectangle with its corners in order that fits the container
  ends within it.
\<close>

theorem region_move_step:
  assumes "currentMove s = Some (ox, oy)"
  shows "let tx = mx - c_left d - ox;
             ty = my - c_top d - oy;
             t = move (Some tx) (Some ty) (box s);
             r = box (snd (onRegionMoveMoving d mx my s))
         in x1 t = tx \<and> y1 t = ty
            \<and> width t = width (box s) \<and> height t = height (box s)
            \<and> r = movedRegion d tx ty (box s)
            \<and> width r = width t \<and> height r = height t
            \<and> (0 \<le> x1 t \<and> x2 t \<le> c_width d \<and> 0 \<le> y1 t \<and> y2 t \<le> c_height d
                 \<longrightarrow> r = t)
            \<and> (x1 (box s) \<le> x2 (box s) \<and> width (box s) \<le> c_width d
                 \<longrightarrow> 0 \<le> x1 r \<and> x2 r \<le> c_width d
                     \<and> x1 r = (if tx < 0 then 0
                               else if c_width d < tx + width (box s)
                                    then c_width d - width (box s)
                                    else tx))
            \<and> (y1 (box s) \<le> y2 (box s) \<and> height (box s) \<le> c_height d
                 \<longrightarrow> 0 \<le> y1 r \<and> y2 r \<le> c_height d
                     \<and> y1 r = (if ty < 0 then 0
                               else if c_height d < ty + height (box s)
                                    then c_height d - height (box s)
                                    else ty))"
proof -
  define tx where "tx = mx - c_left d - ox"
  define ty where "ty = my - c_top d - oy"
  define t where "t = move (Some tx) (Some ty) (box s)"
  define r where "r = box (snd (onRegionMoveMoving d mx my s))"
  have r: "r = movedRegion d tx ty (box s)"
    unfolding r_def tx_def ty_def by (rule onRegionMoveMoving_box [OF assms])
  have c1: "x1 t = tx \<and> y1 t = ty"
    by (simp add: t_def move_first_corner)
  have c2: "width t = width (box s) \<and> height t = height (box s)"
    by (simp add: t_def width_move height_move)
  have c3: "width r = width t \<and> height r = height t"
    by (simp add: r c2 width_movedRegion height_movedRegion)
  have c4: "0 \<le> x1 t \<and> x2 t \<le> c_width d \<and> 0 \<le> y1 t \<and> y2 t \<le> c_height d \<longrightarrow> r = t"
    unfolding r t_def by (auto intro: movedRegion_inside)
  have c5: "x1 (box s) \<le> x2 (box s) \<and> width (box s) \<le> c_width d
              \<longrightarrow> 0 \<le> x1 r \<and> x2 r \<le> c_width d
                  \<and> x1 r = (if tx < 0 then 0
                            else if c_width d < tx + width (box s)
                                 then c_width d - width (box s)
                                 else tx)"
    unfolding r using movedRegion_x [where b = "box s" and d = d and tx = tx and ty = ty] by auto
  have c6: "y1 (box s) \<le> y2 (box s) \<and> height (box s) \<le> c_height d
              \<longrightarrow> 0 \<le> y1 r \<and> y2 r \<le> c_height d
                  \<and> y1 r = (if ty < 0 then 0
                            else if c_height d < ty + height (box s)
                                 then c_height d - height (box s)
                                 else ty)"
    unfolding r using movedRegion_y [where b = "box s" and d = d and tx = tx and ty = ty] by auto
  show ?thesis
    unfolding Let_def tx_def [symmetric] ty_def [symmetric] t_def [symmetric] r_def [symmetric]
    using r c1 c2 c3 c4 c5 c6 by blast
qed

theorem region_move_step_witness:
  "currentMove ((at_rest [] (Box 10 10 60 60))\<lparr>currentMove := Some (5, 5)\<rparr>) = Some (5, 5)
   \<and> x1 (Box 10 10 60 60) \<le> x2 (Box 10 10 60 60) \<and> width (Box 10 10 60 60) \<le> c_width dom100
   \<and> y1 (Box 10 10 60 60) \<le> y2 (Box 10 10 60 60) \<and> height (Box 10 10 60 60) \<le> c_height dom100
   \<and> move (Some 85) (Some 15) (Box 10 10 60 60) = Box 85 15 135 65
   \<and> box (snd (onRegionMoveMoving dom100 90 20
                  ((at_rest [] (Box 10 10 60 60))\<lparr>currentMove := Some (5, 5)\<rparr>)))
       = Box 50 15 100 65"
proof -
  let ?s = "(at_rest [] (Box 10 10 60 60))\<lparr>currentMove := Some (5, 5)\<rparr>"
  have h: "currentMove ?s = Some (5, 5)" by simp
  have b: "box ?s = Box 10 10 60 60" by (simp add: at_rest_def)
  have m: "movedRegion dom100 85 15 (Box 10 10 60 60) = Box 50 15 100 65"
    by (simp add: movedRegion_def move_def Box_def width_def height_def dom100_def)
  have t: "move (Some 85) (Some 15) (Box 10 10 60 60) = Box 85 15 135 65"
    by (simp add: move_def Box_def)
  have g: "x1 (Box 10 10 60 60) \<le> x2 (Box 10 10 60 60) \<and> width (Box 10 10 60 60) \<le> c_width dom100
   \<and> y1 (Box 10 10 60 60) \<le> y2 (Box 10 10 60 60) \<and> height (Box 10 10 60 60) \<le> c_height dom100"
    by (simp add: Box_def width_def height_def dom100_def)
  from region_move_step [OF h, of 90 dom100 20]
  have "box (snd (onRegionMoveMoving dom100 90 20 ?s)) = movedRegion dom100 85 15 (Box 10 10 60 60)"
    unfolding Let_def b by (simp add: dom100_def)
  then show ?thesis using h m t g by simp
qed

subsection \<open>Callbacks and options\<close>

lemma fire_fun:
  "get (options s) name = JFun f \<Longrightarrow>
   fire name d s = (Returned RetUndefined, s\<lparr>called := called s @ [Callback name (getValue d s JNull)]\<rparr>)"
  by (simp add: fire_def)

lemma fire_null: "get (options s) name = JNull \<Longrightarrow> fire name d s = (Returned RetUndefined, s)"
  by (simp add: fire_def)

lemma fire_keeps:
  "box (snd (fire name d s)) = box s" "options (snd (fire name d s)) = options s"
  "activeHandle (snd (fire name d s)) = activeHandle s"
  "currentMove (snd (fire name d s)) = currentMove s"
  "tmpBox (snd (fire name d s)) = tmpBox s"
  "drawn (snd (fire name d s)) = drawn s"
  by (simp_all add: fire_def split: jsval.splits)

lemma getValue_cong:
  "options s = options s' \<Longrightarrow> box s = box s' \<Longrightarrow> getValue d s m = getValue d s' m"
  by (simp add: getValue_def Let_def)

lemma dims_parseSize:
  "\<exists>w h. dims (defaultValue (parseSize v u) (JObj kv)) = Inr (w, h)"
  by (simp add: defaultValue_def parseSize_def dims_def)

lemma parseOptions_sizes:
  assumes "parseOptions opts = Inr p"
  shows "\<exists>w h. dims (get p ''startSize'') = Inr (w, h)"
    and "\<exists>w h. dims (get p ''maxSize'') = Inr (w, h)"
    and "\<exists>w h. dims (get p ''minSize'') = Inr (w, h)"
  using assms dims_parseSize
  by (auto simp add: parseOptions_def Let_def get_def split: sum.splits)

lemma initializeBox_total:
  assumes "dims (get p ''startSize'') = Inr (w, h)"
    and "dims (get p ''maxSize'') = Inr (maxw, maxh)"
    and "dims (get p ''minSize'') = Inr (minw, minh)"
  shows "\<exists>b. initializeBox E d p = Inr b"
  using assms by (simp add: initializeBox_def Let_def)

lemma initializeBox_parsed:
  assumes "parseOptions opts = Inr p"
  shows "\<exists>b. initializeBox E d p = Inr b"
  using parseOptions_sizes [OF assms] initializeBox_total by metis


lemma example_options_eq:
  "example_options =
     [(''aspectRatio'', JNull),
      (''maxSize'', JObj [(''width'', JNull), (''height'', JNull)]),
      (''minSize'', JObj [(''width'', JNull), (''height'', JNull)]),
      (''startSize'', JObj [(''width'', JNum 100), (''height'', JNum 100), (''unit'', JStr ''%'')]),
      (''returnMode'', JStr ''raw''),
      (''onInitialize'', JNull),
      (''onSelectStart'', JFun ''start''),
      (''onSelectMove'', JFun ''move''),
      (''onSelectEnd'', JFun ''end''),
      (''convertToPixels'', JFun ''convertToPixels'')]"
  by (simp add: example_options_def parseOptions_def parseReturnMode_def toLowerCase_def
      lower_char_def get_def parseSize_def parseCallback_def parseAspectRatio_def defaultValue_def)

lemma example_options_get:
  "get example_options ''returnMode'' = JStr ''raw''"
  "get example_options ''onSelectStart'' = JFun ''start''"
  "get example_options ''onSelectMove'' = JFun ''move''"
  "get example_options ''onSelectEnd'' = JFun ''end''"
  "get example_options ''aspectRatio'' = JNull"
  "get example_options ''maxSize'' = JObj [(''width'', JNull), (''height'', JNull)]"
  "get example_options ''minSize'' = JObj [(''width'', JNull), (''height'', JNull)]"
  by (simp_all add: example_options_eq get_def)

subsection \<open>The start of a resize\<close>

text \<open>
  C7. On every resize start the anchor is the point opposite the handle,
  \<open>[1 - handle.position.x, 1 - handle.position.y]\<close>, its absolute coordinates at that
  moment are captured with \<open>getAbsolutePoint\<close>, and \<open>onSelectStart\<close>, when it is
  configured, is called with the current value. The start of a new selection on the
  overlay is this start, with the handle at index 4 (\<open>se\<close>) on the new rectangle.
\<close>

theorem resize_start:
  "let origin = (1 - fst (position h), 1 - snd (position h));
       r = onHandleMoveStart d h s
   in activeHandle (snd r) =
        Some \<lparr>a_handle = h, originPoint = origin,
              originX = fst (getAbsolutePoint origin (box s)),
              originY = snd (getAbsolutePoint origin (box s))\<rparr>
      \<and> box (snd r) = box s
      \<and> (\<forall>f. get (options s) ''onSelectStart'' = JFun f \<longrightarrow>
            fst r = Returned RetUndefined
            \<and> called (snd r) = called s @ [Callback ''onSelectStart'' (getValue d s JNull)])
      \<and> (get (options s) ''onSelectStart'' = JNull \<longrightarrow>
            fst r = Returned RetUndefined \<and> called (snd r) = called s)
      \<and> overlay_onMouseDown d cx cy s =
          snd (onHandleMoveStart d (HANDLES ! 4)
                 (s\<lparr>tmpBox := Some (box s),
                    box := Box (cx - c_left d) (cy - c_top d) (cx - c_left d + 1)
                             (cy - c_top d + 1)\<rparr>))"
proof -
  define origin where "origin = (1 - fst (position h), 1 - snd (position h))"
  define a where
    "a = \<lparr>a_handle = h, originPoint = origin,
          originX = fst (getAbsolutePoint origin (box s)),
          originY = snd (getAbsolutePoint origin (box s))\<rparr>"
  define s1 where "s1 = s\<lparr>activeHandle := Some a\<rparr>"
  have r: "onHandleMoveStart d h s = fire ''onSelectStart'' d s1"
    by (simp add: onHandleMoveStart_def Let_def s1_def a_def origin_def split_beta)
  have v: "getValue d s1 JNull = getValue d s JNull"
    by (rule getValue_cong) (simp_all add: s1_def)
  have c1: "activeHandle (snd (fire ''onSelectStart'' d s1)) = Some a"
    by (simp add: fire_keeps s1_def)
  have c2: "box (snd (fire ''onSelectStart'' d s1)) = box s"
    by (simp add: fire_keeps s1_def)
  have c3: "get (options s) ''onSelectStart'' = JFun f \<longrightarrow>
              fst (fire ''onSelectStart'' d s1) = Returned RetUndefined
              \<and> called (snd (fire ''onSelectStart'' d s1))
                    = called s @ [Callback ''onSelectStart'' (getValue d s JNull)]" for f
  proof
    assume "get (options s) ''onSelectStart'' = JFun f"
    then have "get (options s1) ''onSelectStart'' = JFun f" by (simp add: s1_def)
    from fire_fun [OF this, of d] show "fst (fire ''onSelectStart'' d s1) = Returned RetUndefined
              \<and> called (snd (fire ''onSelectStart'' d s1))
                    = called s @ [Callback ''onSelectStart'' (getValue d s JNull)]"
      by (simp add: v) (simp add: s1_def)
  qed
  have c4: "get (options s) ''onSelectStart'' = JNull \<longrightarrow>
              fst (fire ''onSelectStart'' d s1) = Returned RetUndefined
              \<and> called (snd (fire ''onSelectStart'' d s1)) = called s"
  proof
    assume "get (options s) ''onSelectStart'' = JNull"
    then have "get (options s1) ''onSelectStart'' = JNull" by (simp add: s1_def)
    from fire_null [OF this, of d] show "fst (fire ''onSelectStart'' d s1) = Returned RetUndefined
              \<and> called (snd (fire ''onSelectStart'' d s1)) = called s"
      by (simp add: s1_def)
  qed
  have c5: "overlay_onMouseDown d cx cy s =
          snd (onHandleMoveStart d (HANDLES ! 4)
                 (s\<lparr>tmpBox := Some (box s),
                    box := Box (cx - c_left d) (cy - c_top d) (cx - c_left d + 1)
                             (cy - c_top d + 1)\<rparr>))"
    by (simp add: overlay_onMouseDown_def Let_def dispatchEvent_def SOUTHEAST_HANDLE_IDX_def)
  show ?thesis
    unfolding Let_def r origin_def [symmetric] using c1 c2 c3 c4 c5 unfolding a_def by blast
qed

theorem resize_start_witness:
  "get (options (at_rest example_options (Box 10 10 60 60))) ''onSelectStart'' = JFun ''start''
   \<and> onHandleMoveStart dom100 (HANDLES ! 0) (at_rest example_options (Box 10 10 60 60))
       = (Returned RetUndefined,
          (at_rest example_options (Box 10 10 60 60))
            \<lparr>activeHandle := Some \<lparr>a_handle = HANDLES ! 0, originPoint = (1, 1),
                                   originX = 60, originY = 60\<rparr>,
             called := [Callback ''onSelectStart''
                          (Some \<lparr>v_x = Finite 10, v_y = Finite 10,
                                        v_width = Finite 50, v_height = Finite 50\<rparr>)]\<rparr>)"
proof -
  let ?s = "at_rest example_options (Box 10 10 60 60)"
  have o: "get (options ?s) ''onSelectStart'' = JFun ''start''"
    by (simp add: at_rest_def example_options_get)
  have g: "getValue dom100 ?s JNull = Some \<lparr>v_x = Finite 10, v_y = Finite 10,
                                                   v_width = Finite 50, v_height = Finite 50\<rparr>"
    by (simp add: getValue_def at_rest_def example_options_get Box_def width_def height_def
        math_round_def)
  have p: "position (HANDLES ! 0) = (0, 0)" by (simp add: HANDLES_def)
  have a: "getAbsolutePoint (1, 1) (box ?s) = (60, 60)"
    by (simp add: getAbsolutePoint_def at_rest_def Box_def)
  from resize_start [of "HANDLES ! 0" dom100 ?s]
  have "activeHandle (snd (onHandleMoveStart dom100 (HANDLES ! 0) ?s)) =
          Some \<lparr>a_handle = HANDLES ! 0, originPoint = (1, 1), originX = 60, originY = 60\<rparr>
        \<and> fst (onHandleMoveStart dom100 (HANDLES ! 0) ?s) = Returned RetUndefined
        \<and> called (snd (onHandleMoveStart dom100 (HANDLES ! 0) ?s))
            = called ?s @ [Callback ''onSelectStart'' (getValue dom100 ?s JNull)]"
    unfolding Let_def p using o a by simp
  moreover have "onHandleMoveStart dom100 (HANDLES ! 0) ?s
      = fire ''onSelectStart'' dom100 (?s\<lparr>activeHandle := Some \<lparr>a_handle = HANDLES ! 0, originPoint = (1, 1), originX = 60, originY = 60\<rparr>\<rparr>)"
    using a p by (simp add: onHandleMoveStart_def Let_def)
  ultimately show ?thesis
    using o g by (simp add: fire_def at_rest_def)
qed

subsection \<open>The methods of the wrapper\<close>

lemma end_fired:
  assumes "get (options s) ''onSelectEnd'' = JFun f"
  shows "and_then (fire ''onSelectEnd'' d (redraw (s\<lparr>box := b\<rparr>))) returnThis
         = (Returned RetThis,
            (redraw (s\<lparr>box := b\<rparr>))
              \<lparr>called := called s @
                 [Callback ''onSelectEnd'' (getValue d (s\<lparr>box := b\<rparr>) JNull)]\<rparr>)"
proof -
  have o: "get (options (redraw (s\<lparr>box := b\<rparr>))) ''onSelectEnd'' = JFun f"
    using assms by (simp add: redraw_def)
  have v: "getValue d (redraw (s\<lparr>box := b\<rparr>)) JNull = getValue d (s\<lparr>box := b\<rparr>) JNull"
    by (rule getValue_cong) (simp_all add: redraw_def)
  show ?thesis
    by (simp add: fire_fun [OF o] and_then_def returnThis_def v) (simp add: redraw_def)
qed

lemma end_silent:
  assumes "get (options s) ''onSelectEnd'' = JNull"
  shows "and_then (fire ''onSelectEnd'' d (redraw (s\<lparr>box := b\<rparr>))) returnThis
         = (Returned RetThis, redraw (s\<lparr>box := b\<rparr>))"
proof -
  have o: "get (options (redraw (s\<lparr>box := b\<rparr>))) ''onSelectEnd'' = JNull"
    using assms by (simp add: redraw_def)
  show ?thesis
    by (simp add: fire_null [OF o] and_then_def returnThis_def)
qed

lemma example_initializeBox:
  "initializeBox example_constraints dom100 example_converted = Inr (Box 25 25 75 75)"
  by (simp add: initializeBox_def example_converted_def get_def dims_def number_or_0_def
      example_constraints_def Box_def resize_def getAbsolutePoint_def width_def height_def
      clampTo_def dom100_def move_def)

lemma example_instance_eq:
  "example_instance =
     \<lparr>options = example_converted, box = Box 25 25 75 75, activeHandle = None,
      currentMove = None, tmpBox = None, called = [],
      drawn = [\<lparr>r_x = 25, r_y = 25, r_width = 50, r_height = 50\<rparr>]\<rparr>"
proof -
  have p: "parseOptions [(''returnMode'', JStr ''RAW''), (''startSize'', JArr [JNum 50, JNum 50]),
              (''onSelectStart'', JFun ''start''),
              (''onSelectMove'', JFun ''move''), (''onSelectEnd'', JFun ''end'')]
        = Inr [(''aspectRatio'', JNull),
      (''maxSize'', JObj [(''width'', JNull), (''height'', JNull)]),
      (''minSize'', JObj [(''width'', JNull), (''height'', JNull)]),
      (''startSize'', JObj [(''width'', JNum 50), (''height'', JNum 50), (''unit'', JStr ''%'')]),
      (''returnMode'', JStr ''raw''),
      (''onInitialize'', JNull),
      (''onSelectStart'', JFun ''start''),
      (''onSelectMove'', JFun ''move''),
      (''onSelectEnd'', JFun ''end''),
      (''convertToPixels'', JFun ''convertToPixels'')]"
    by (simp add: parseOptions_def parseReturnMode_def toLowerCase_def
      lower_char_def get_def parseSize_def parseCallback_def parseAspectRatio_def defaultValue_def js_or_def)
  have c: "convertToPixels dom100 [(''aspectRatio'', JNull),
      (''maxSize'', JObj [(''width'', JNull), (''height'', JNull)]),
      (''minSize'', JObj [(''width'', JNull), (''height'', JNull)]),
      (''startSize'', JObj [(''width'', JNum 50), (''height'', JNum 50), (''unit'', JStr ''%'')]),
      (''returnMode'', JStr ''raw''),
      (''onInitialize'', JNull),
      (''onSelectStart'', JFun ''start''),
      (''onSelectMove'', JFun ''move''),
      (''onSelectEnd'', JFun ''end''),
      (''convertToPixels'', JFun ''convertToPixels'')] = Inr example_converted"
    by (simp add: convertToPixels_def convertSize_def get_def put_def js_mul_def js_div_def
        dom100_def example_converted_def)
  have g: "get example_converted ''onInitialize'' = JNull"
    by (simp add: example_converted_def get_def)
  show ?thesis
    by (simp add: example_instance_def newCore_def p initialize_def c example_initializeBox g
        redraw_def Box_def width_def height_def math_round_def)
qed

lemma end_fires_end:
  assumes "get (options s) ''onSelectEnd'' = JFun f"
  shows "fires_end d s b (and_then (fire ''onSelectEnd'' d (redraw (s\<lparr>box := b\<rparr>))) returnThis)"
proof -
  have "getValue d
          ((redraw (s\<lparr>box := b\<rparr>))
             \<lparr>called := called s @ [Callback ''onSelectEnd'' (getValue d (s\<lparr>box := b\<rparr>) JNull)]\<rparr>)
          JNull
        = getValue d (s\<lparr>box := b\<rparr>) JNull"
    by (rule getValue_cong) (simp_all add: redraw_def)
  then show ?thesis
    by (simp add: end_fired [OF assms] fires_end_def) (simp add: redraw_def)
qed

lemma end_stays_silent:
  assumes "get (options s) ''onSelectEnd'' = JNull"
  shows "stays_silent s b (and_then (fire ''onSelectEnd'' d (redraw (s\<lparr>box := b\<rparr>))) returnThis)"
  by (simp add: end_silent [OF assms] stays_silent_def) (simp add: redraw_def)

text \<open>
  C9. Each of \<open>moveTo\<close>, \<open>resizeTo\<close>, \<open>scaleBy\<close> and \<open>reset\<close> calls \<open>onSelectEnd\<close>
  with the current value whenever that callback is configured, with no selection
  started or ended by the pointer, and returns the instance itself; with no callback
  configured it returns the instance and calls nothing. (\<open>reset\<close> builds the box with
  \<open>initializeBox\<close>, which returns one for every parsed options object.)
\<close>

theorem programmatic_operations:
  "(get (options s) ''onSelectEnd'' = JFun f \<longrightarrow>
      fires_end d s (move (Some x) (Some y) (box s)) (moveTo d x y s)
      \<and> fires_end d s
          (resize w h (case origin of None \<Rightarrow> (1 / 2, 1 / 2) | Some p \<Rightarrow> p) (box s))
          (resizeTo d w h origin s)
      \<and> fires_end d s
          (scale factor (case origin of None \<Rightarrow> (1 / 2, 1 / 2) | Some p \<Rightarrow> p) (box s))
          (scaleBy d factor origin s)
      \<and> (initializeBox E d (options s) = Inr b \<longrightarrow> fires_end d s b (reset E d s)))
   \<and> (get (options s) ''onSelectEnd'' = JNull \<longrightarrow>
      stays_silent s (move (Some x) (Some y) (box s)) (moveTo d x y s)
      \<and> stays_silent s
          (resize w h (case origin of None \<Rightarrow> (1 / 2, 1 / 2) | Some p \<Rightarrow> p) (box s))
          (resizeTo d w h origin s)
      \<and> stays_silent s
          (scale factor (case origin of None \<Rightarrow> (1 / 2, 1 / 2) | Some p \<Rightarrow> p) (box s))
          (scaleBy d factor origin s)
      \<and> (initializeBox E d (options s) = Inr b \<longrightarrow> stays_silent s b (reset E d s)))"
proof (intro conjI impI)
  assume c: "get (options s) ''onSelectEnd'' = JFun f"
  show "fires_end d s (move (Some x) (Some y) (box s)) (moveTo d x y s)"
    using end_fires_end [OF c] by (simp add: moveTo_def Let_def)
  show "fires_end d s
          (resize w h (case origin of None \<Rightarrow> (1 / 2, 1 / 2) | Some p \<Rightarrow> p) (box s))
          (resizeTo d w h origin s)"
    using end_fires_end [OF c] by (simp add: resizeTo_def Let_def)
  show "fires_end d s
          (scale factor (case origin of None \<Rightarrow> (1 / 2, 1 / 2) | Some p \<Rightarrow> p) (box s))
          (scaleBy d factor origin s)"
    using end_fires_end [OF c] by (simp add: scaleBy_def Let_def)
  show "fires_end d s b (reset E d s)" if "initializeBox E d (options s) = Inr b"
    using end_fires_end [OF c] that by (simp add: reset_def Let_def)
next
  assume c: "get (options s) ''onSelectEnd'' = JNull"
  show "stays_silent s (move (Some x) (Some y) (box s)) (moveTo d x y s)"
    using end_stays_silent [OF c] by (simp add: moveTo_def Let_def)
  show "stays_silent s
          (resize w h (case origin of None \<Rightarrow> (1 / 2, 1 / 2) | Some p \<Rightarrow> p) (box s))
          (resizeTo d w h origin s)"
    using end_stays_silent [OF c] by (simp add: resizeTo_def Let_def)
  show "stays_silent s
          (scale factor (case origin of None \<Rightarrow> (1 / 2, 1 / 2) | Some p \<Rightarrow> p) (box s))
          (scaleBy d factor origin s)"
    using end_stays_silent [OF c] by (simp add: scaleBy_def Let_def)
  show "stays_silent s b (reset E d s)" if "initializeBox E d (options s) = Inr b"
    using end_stays_silent [OF c] that by (simp add: reset_def Let_def)
qed

lemma example_instance_get:
  "get (options example_instance) ''onSelectEnd'' = JFun ''end''"
  "get (options example_instance) ''onSelectStart'' = JFun ''start''"
  "get (options example_instance) ''onSelectMove'' = JFun ''move''"
  "get (options example_instance) ''returnMode'' = JStr ''raw''"
  "get (options example_instance) ''aspectRatio'' = JNull"
  "box example_instance = Box 25 25 75 75"
  "called example_instance = []"
  by (simp_all add: example_instance_eq example_converted_def get_def)

theorem programmatic_operations_witness:
  "get (options example_instance) ''onSelectEnd'' = JFun ''end''
   \<and> initializeBox example_constraints dom100 (options example_instance) = Inr (Box 25 25 75 75)
   \<and> fst (moveTo dom100 20 30 example_instance) = Returned RetThis
   \<and> box (snd (moveTo dom100 20 30 example_instance)) = Box 20 30 70 80
   \<and> called (snd (moveTo dom100 20 30 example_instance))
       = [Callback ''onSelectEnd'' (Some \<lparr>v_x = Finite 20, v_y = Finite 30,
                                                 v_width = Finite 50, v_height = Finite 50\<rparr>)]
   \<and> called (snd (resizeTo dom100 10 20 None example_instance))
       = [Callback ''onSelectEnd'' (Some \<lparr>v_x = Finite 45, v_y = Finite 40,
                                                 v_width = Finite 10, v_height = Finite 20\<rparr>)]
   \<and> called (snd (scaleBy dom100 (1 / 2) (Some (0, 0)) example_instance))
       = [Callback ''onSelectEnd'' (Some \<lparr>v_x = Finite 25, v_y = Finite 25,
                                                 v_width = Finite 25, v_height = Finite 25\<rparr>)]
   \<and> fst (reset example_constraints dom100 (snd (moveTo dom100 20 30 example_instance)))
       = Returned RetThis"
proof -
  have c: "get (options example_instance) ''onSelectEnd'' = JFun ''end''"
    by (rule example_instance_get)
  have i: "initializeBox example_constraints dom100 (options example_instance)
             = Inr (Box 25 25 75 75)"
    by (simp add: example_instance_eq example_initializeBox)
  note t = programmatic_operations [of example_instance "''end''" dom100 20 30 10 20 None "1 / 2"
              example_constraints "Box 25 25 75 75"]
  note u = programmatic_operations [of example_instance "''end''" dom100 20 30 10 20 "Some (0, 0)" "1 / 2"
              example_constraints "Box 25 25 75 75"]
  have m: "fires_end dom100 example_instance (move (Some 20) (Some 30) (box example_instance))
             (moveTo dom100 20 30 example_instance)"
    using t c by blast
  have r: "fires_end dom100 example_instance (resize 10 20 (1 / 2, 1 / 2) (box example_instance))
             (resizeTo dom100 10 20 None example_instance)"
    using t c by simp
  have k: "fires_end dom100 example_instance (scale (1 / 2) (0, 0) (box example_instance))
             (scaleBy dom100 (1 / 2) (Some (0, 0)) example_instance)"
    using u c by simp
  have bm: "move (Some 20) (Some 30) (box example_instance) = Box 20 30 70 80"
    by (simp add: example_instance_get move_def Box_def)
  have br: "resize 10 20 (1 / 2, 1 / 2) (box example_instance) = Box 45 40 55 60"
    by (simp add: example_instance_get resize_def getAbsolutePoint_def Box_def)
  have bk: "scale (1 / 2) (0, 0) (box example_instance) = Box 25 25 50 50"
    by (simp add: example_instance_get scale_def resize_def getAbsolutePoint_def Box_def
        width_def height_def)
  have gv: "box s = Box a b (a + w) (b + h) \<Longrightarrow> 0 \<le> w \<Longrightarrow> 0 \<le> h \<Longrightarrow>
            get (options s) ''returnMode'' = JStr ''raw'' \<Longrightarrow>
            getValue dom100 s JNull
              = Some \<lparr>v_x = Finite (math_round a), v_y = Finite (math_round b),
                      v_width = Finite (math_round w), v_height = Finite (math_round h)\<rparr>" for s a b w h
    by (simp add: getValue_def Box_def width_def height_def)
  have rm: "get (options example_instance) ''returnMode'' = JStr ''raw''"
    by (rule example_instance_get)
  have e: "called example_instance = []" by (rule example_instance_get)
  have m1: "fst (moveTo dom100 20 30 example_instance) = Returned RetThis"
    and m2: "box (snd (moveTo dom100 20 30 example_instance)) = Box 20 30 70 80"
    and m3: "called (snd (moveTo dom100 20 30 example_instance)) =
       [Callback ''onSelectEnd'' (getValue dom100 (snd (moveTo dom100 20 30 example_instance)) JNull)]"
    and m4: "options (snd (moveTo dom100 20 30 example_instance)) = options example_instance"
    using m by (simp_all add: fires_end_def bm e)
  have m5: "getValue dom100 (snd (moveTo dom100 20 30 example_instance)) JNull
     = Some \<lparr>v_x = Finite 20, v_y = Finite 30,
                    v_width = Finite 50, v_height = Finite 50\<rparr>"
    using gv [of "snd (moveTo dom100 20 30 example_instance)" 20 30 50 50] m2 m4 rm
    by (simp add: math_round_def)
  have r2: "box (snd (resizeTo dom100 10 20 None example_instance)) = Box 45 40 55 60"
    and r3: "called (snd (resizeTo dom100 10 20 None example_instance)) =
       [Callback ''onSelectEnd'' (getValue dom100 (snd (resizeTo dom100 10 20 None example_instance)) JNull)]"
    and r4: "options (snd (resizeTo dom100 10 20 None example_instance)) = options example_instance"
    using r by (simp_all add: fires_end_def br e)
  have r5: "getValue dom100 (snd (resizeTo dom100 10 20 None example_instance)) JNull
     = Some \<lparr>v_x = Finite 45, v_y = Finite 40,
                    v_width = Finite 10, v_height = Finite 20\<rparr>"
    using gv [of "snd (resizeTo dom100 10 20 None example_instance)" 45 40 10 20] r2 r4 rm
    by (simp add: math_round_def)
  have k2: "box (snd (scaleBy dom100 (1 / 2) (Some (0, 0)) example_instance)) = Box 25 25 50 50"
    and k3: "called (snd (scaleBy dom100 (1 / 2) (Some (0, 0)) example_instance)) =
       [Callback ''onSelectEnd'' (getValue dom100 (snd (scaleBy dom100 (1 / 2) (Some (0, 0)) example_instance)) JNull)]"
    and k4: "options (snd (scaleBy dom100 (1 / 2) (Some (0, 0)) example_instance)) = options example_instance"
    using k by (simp_all add: fires_end_def bk e)
  have k5: "getValue dom100 (snd (scaleBy dom100 (1 / 2) (Some (0, 0)) example_instance)) JNull
     = Some \<lparr>v_x = Finite 25, v_y = Finite 25,
                    v_width = Finite 25, v_height = Finite 25\<rparr>"
    using gv [of "snd (scaleBy dom100 (1 / 2) (Some (0, 0)) example_instance)" 25 25 25 25] k2 k4 rm
    by (simp add: math_round_def)
  let ?s = "snd (moveTo dom100 20 30 example_instance)"
  have "get (options ?s) ''onSelectEnd'' = JFun ''end''" using m4 c by simp
  moreover have "initializeBox example_constraints dom100 (options ?s) = Inr (Box 25 25 75 75)"
    using m4 i by simp
  ultimately have "fires_end dom100 ?s (Box 25 25 75 75) (reset example_constraints dom100 ?s)"
    using programmatic_operations [of ?s "''end''" dom100 0 0 0 0 None 0 example_constraints
        "Box 25 25 75 75"] by blast
  then have "fst (reset example_constraints dom100 ?s) = Returned RetThis"
    by (simp add: fires_end_def)
  then show ?thesis
    using c i m1 m2 m3 m5 r3 r5 k3 k5 by simp
qed

subsection \<open>The value of the region\<close>

lemma math_round_rounded: "rounded_to n q (math_round (q * 10 ^ n) / 10 ^ n)"
proof -
  define P :: real where "P = 10 ^ n"
  define k where "k = \<lfloor>q * P + 1 / 2\<rfloor>"
  have p: "P > 0" by (simp add: P_def)
  have a: "real_of_int k \<le> q * P + 1 / 2" unfolding k_def by (rule of_int_floor_le)
  have b: "q * P + 1 / 2 < real_of_int k + 1" unfolding k_def by linarith
  have c: "\<bar>real_of_int k - q * P\<bar> \<le> 1 / 2" using a b by linarith
  have "real_of_int k / P - q = (real_of_int k - q * P) / P"
    using p by (simp add: field_simps)
  then have "\<bar>real_of_int k / P - q\<bar> = \<bar>real_of_int k - q * P\<bar> / P"
    using p by simp
  also have "\<dots> \<le> (1 / 2) / P"
    by (rule divide_right_mono) (use p c in simp_all)
  finally have d: "\<bar>real_of_int k / P - q\<bar> \<le> 1 / (2 * P)" by simp
  have e: "real_of_int k / P * P \<in> \<int>" using p by simp
  show ?thesis
    using d e by (simp add: rounded_to_def math_round_def P_def k_def)
qed

text \<open>Where neither the value nor the rounded integer is written with an exponent,
  \<open>round\<close> does round to the decimals asked for.\<close>

lemma round_js_rounded:
  assumes "\<not> exponent_form q" and "\<not> exponent_form (math_round (q * 10 ^ n))"
  shows "\<exists>r. round_js (Finite q) n = Finite r \<and> rounded_to n q r"
  using assms math_round_rounded [of n q] by (simp add: Let_def)

lemma round_js_exponent: "exponent_form q \<Longrightarrow> round_js (Finite q) n = NotANumber"
  by simp

lemma getValue_ratio_eq:
  "getValue d s (JStr ''ratio'') =
     Some \<lparr>v_x = round_js (num_div (Finite (x1 (box s))) (Finite (elementWidth d))) 3,
           v_y = round_js (num_div (Finite (y1 (box s))) (Finite (elementHeight d))) 3,
           v_width = round_js (num_div (Finite (width (box s))) (Finite (elementWidth d))) 3,
           v_height =
             round_js (num_div (Finite (height (box s))) (Finite (elementHeight d))) 3\<rparr>"
  by (simp add: getValue_def)

text \<open>In the mode \<open>'ratio'\<close> each of the four is \<open>round\<close> of a quotient by the rendered
  width or height (\<open>getValue_ratio_eq\<close>), and such a component is the quotient rounded
  to 3 decimal places as long as the quotient and the rounded integer are written
  without an exponent.\<close>

lemma ratio_component_rounded:
  assumes "0 < e"
    and "\<not> exponent_form (a / e)"
    and "\<not> exponent_form (math_round (a / e * 10 ^ 3))"
  shows "\<exists>r. round_js (num_div (Finite a) (Finite e)) 3 = Finite r \<and> rounded_to 3 (a / e) r"
proof -
  have "num_div (Finite a) (Finite e) = Finite (a / e)"
    using assms(1) by simp
  then show ?thesis
    using round_js_rounded [OF assms(2,3)] by simp
qed

text \<open>
  C6, at a quotient below \<open>1e-6\<close>. In the mode \<open>'ratio'\<close>, \<open>getValue\<close> divides \<open>x1\<close> and
  \<open>width()\<close> by the rendered width and \<open>y1\<close> and \<open>height()\<close> by the rendered height (of
  the target element, which is what it measures) and gives each quotient to
  \<open>round(value, 3)\<close>; for the rectangle \<open>(10,10,60,60)\<close> and a rendered size of 100 by
  100 the value is \<open>{x: 0.1, y: 0.1, width: 0.5, height: 0.5}\<close>. But \<open>round\<close> works on
  the string of the value: after \<open>moveTo(0.00001, 10)\<close> on the example instance the
  quotient for \<open>x\<close> is \<open>1e-7\<close>, whose rounding to 3 decimal places is 0, and \<open>getValue\<close>
  gives \<open>x: NaN\<close>.
\<close>

theorem getValue_ratio_tiny:
  "getValue dom100 (at_rest [] (Box 10 10 60 60)) (JStr ''ratio'')
     = Some \<lparr>v_x = Finite (1 / 10), v_y = Finite (1 / 10),
             v_width = Finite (1 / 2), v_height = Finite (1 / 2)\<rparr>
   \<and> fst (moveTo dom100 (1 / 100000) 10 example_instance) = Returned RetThis
   \<and> box (snd (moveTo dom100 (1 / 100000) 10 example_instance))
       = Box (1 / 100000) 10 (50 + 1 / 100000) 60
   \<and> x1 (box (snd (moveTo dom100 (1 / 100000) 10 example_instance))) / elementWidth dom100
       = 1 / 10000000
   \<and> rounded_to 3 (1 / 10000000) 0
   \<and> getValue dom100 (snd (moveTo dom100 (1 / 100000) 10 example_instance)) (JStr ''ratio'')
       = Some \<lparr>v_x = NotANumber, v_y = Finite (1 / 10),
               v_width = Finite (1 / 2), v_height = Finite (1 / 2)\<rparr>"
proof -
  let ?s = "snd (moveTo dom100 (1 / 100000) 10 example_instance)"
  have a: "getValue dom100 (at_rest [] (Box 10 10 60 60)) (JStr ''ratio'')
     = Some \<lparr>v_x = Finite (1 / 10), v_y = Finite (1 / 10),
             v_width = Finite (1 / 2), v_height = Finite (1 / 2)\<rparr>"
    by (simp add: getValue_ratio_eq at_rest_def dom100_def Box_def width_def height_def
        exponent_form_def math_round_def)
  have c: "get (options example_instance) ''onSelectEnd'' = JFun ''end''"
    by (rule example_instance_get)
  have m: "moveTo dom100 (1 / 100000) 10 example_instance
             = and_then (fire ''onSelectEnd'' dom100
                 (redraw (example_instance
                    \<lparr>box := move (Some (1 / 100000)) (Some 10) (box example_instance)\<rparr>)))
                 returnThis"
    by (simp add: moveTo_def Let_def)
  have f: "fires_end dom100 example_instance
             (move (Some (1 / 100000)) (Some 10) (box example_instance))
             (moveTo dom100 (1 / 100000) 10 example_instance)"
    unfolding m by (rule end_fires_end [OF c])
  have bm: "move (Some (1 / 100000)) (Some 10) (box example_instance)
              = Box (1 / 100000) 10 (50 + 1 / 100000) 60"
    by (simp add: example_instance_get move_def Box_def)
  have r: "fst (moveTo dom100 (1 / 100000) 10 example_instance) = Returned RetThis"
    and b: "box ?s = Box (1 / 100000) 10 (50 + 1 / 100000) 60"
    using f by (simp_all add: fires_end_def bm)
  have q: "x1 (box ?s) / elementWidth dom100 = 1 / 10000000"
    unfolding b by (simp add: dom100_def Box_def)
  have z: "rounded_to 3 (1 / 10000000) 0"
    by (simp add: rounded_to_def)
  have g: "getValue dom100 ?s (JStr ''ratio'')
       = Some \<lparr>v_x = NotANumber, v_y = Finite (1 / 10),
               v_width = Finite (1 / 2), v_height = Finite (1 / 2)\<rparr>"
    unfolding getValue_ratio_eq b
    by (simp add: dom100_def Box_def width_def height_def exponent_form_def math_round_def)
  show ?thesis
    using a r b q z g by simp
qed

subsection \<open>The order of the constraints\<close>

lemma box_sel [simp]:
  "x1 (Box a b c d) = a" "y1 (Box a b c d) = b" "x2 (Box a b c d) = c" "y2 (Box a b c d) = d"
  by (simp_all add: Box_def)

lemma initializeBox_order:
  assumes "dims (get opts ''startSize'') = Inr (w, h)"
    and "dims (get opts ''maxSize'') = Inr (maxw, maxh)"
    and "dims (get opts ''minSize'') = Inr (minw, minh)"
  shows "initializeBox E d opts =
     (let n = toBoundary E (offsetWidth d) (offsetHeight d) (1 / 2, 1 / 2)
                (toSize E (as_real maxw) (as_real maxh) (as_real minw) (as_real minh)
                   (1 / 2, 1 / 2) (as_real (get opts ''aspectRatio''))
                   (toRatio E (as_real (get opts ''aspectRatio'')) (1 / 2, 1 / 2) None
                      (Box 0 0 (number_or_0 w) (number_or_0 h))))
      in Inr (move (Some (offsetWidth d / 2 - width n / 2))
                (Some (offsetHeight d / 2 - height n / 2)) n))"
  using assms by (simp add: initializeBox_def Let_def)

lemma constrained_without_ratio:
  assumes "dims (get opts ''maxSize'') = Inr (maxw, maxh)"
    and "dims (get opts ''minSize'') = Inr (minw, minh)"
    and "get opts ''aspectRatio'' = JNull"
  shows "constrained E d opts hdl my (b, origin) =
     Inr (toBoundary E (offsetWidth d) (offsetHeight d) origin
            (toSize E (as_real maxw) (as_real maxh) (as_real minw) (as_real minh)
               origin None b))"
  using assms by (simp add: constrained_def Let_def)

lemma constrained_with_ratio:
  assumes "dims (get opts ''maxSize'') = Inr (maxw, maxh)"
    and "dims (get opts ''minSize'') = Inr (minw, minh)"
    and "get opts ''aspectRatio'' = JNum r" and "r \<noteq> 0"
  shows "constrained E d opts hdl my (b, origin) =
     Inr (toBoundary E (offsetWidth d) (offsetHeight d) origin
            (toSize E (as_real maxw) (as_real maxh) (as_real minw) (as_real minh)
               origin (Some r)
               (toRatio E (Some r) origin (Some (ratioMode hdl r b my)) b)))"
  using assms by (simp add: constrained_def Let_def number_or_0_def)

lemma onHandleMoveMoving_box:
  assumes "activeHandle s = Some a"
    and "constrained E d (options s) (a_handle a) (clampMouse (my - c_top d) (c_height d))
           (movedBox a (box s) (clampMouse (mx - c_left d) (c_width d))
              (clampMouse (my - c_top d) (c_height d))) = Inr b"
  shows "box (snd (onHandleMoveMoving E d mx my s)) = b"
  using assms by (simp add: onHandleMoveMoving_def Let_def fire_keeps redraw_def)

text \<open>
  C1. Wherever a rectangle is normalised, the constraint operations are applied in the
  order \<open>constrainToRatio\<close>, \<open>constrainToSize\<close>, \<open>constrainToBoundary\<close>, each to the
  result of the one before, whatever the three operations do. \<open>initializeBox\<close> applies
  them to the start rectangle, anchored at the centre, and centres the result; the
  ratio operation is given the configured ratio, \<open>null\<close> when there is none. A move
  step of a handle drag applies the three to the rectangle built from the pointer
  when an aspect ratio (a number that is not zero) is configured, and the last two
  alone when none is configured; the result is the new box of the instance.
\<close>

theorem constraint_order:
  "(dims (get opts ''startSize'') = Inr (w, h)
    \<and> dims (get opts ''maxSize'') = Inr (maxw, maxh)
    \<and> dims (get opts ''minSize'') = Inr (minw, minh) \<longrightarrow>
      initializeBox E d opts =
        (let n = toBoundary E (offsetWidth d) (offsetHeight d) (1 / 2, 1 / 2)
                   (toSize E (as_real maxw) (as_real maxh) (as_real minw) (as_real minh)
                      (1 / 2, 1 / 2) (as_real (get opts ''aspectRatio''))
                      (toRatio E (as_real (get opts ''aspectRatio'')) (1 / 2, 1 / 2) None
                         (Box 0 0 (number_or_0 w) (number_or_0 h))))
         in Inr (move (Some (offsetWidth d / 2 - width n / 2))
                   (Some (offsetHeight d / 2 - height n / 2)) n)))
   \<and> (dims (get opts ''maxSize'') = Inr (maxw, maxh)
       \<and> dims (get opts ''minSize'') = Inr (minw, minh)
       \<and> get opts ''aspectRatio'' = JNum r \<and> r \<noteq> 0 \<longrightarrow>
         constrained E d opts hdl my (b, origin) =
           Inr (toBoundary E (offsetWidth d) (offsetHeight d) origin
                  (toSize E (as_real maxw) (as_real maxh) (as_real minw) (as_real minh)
                     origin (Some r)
                     (toRatio E (Some r) origin (Some (ratioMode hdl r b my)) b))))
   \<and> (dims (get opts ''maxSize'') = Inr (maxw, maxh)
       \<and> dims (get opts ''minSize'') = Inr (minw, minh)
       \<and> get opts ''aspectRatio'' = JNull \<longrightarrow>
         constrained E d opts hdl my (b, origin) =
           Inr (toBoundary E (offsetWidth d) (offsetHeight d) origin
                  (toSize E (as_real maxw) (as_real maxh) (as_real minw) (as_real minh)
                     origin None b)))
   \<and> (activeHandle s = Some a
       \<and> constrained E d (options s) (a_handle a) (clampMouse (cy - c_top d) (c_height d))
            (movedBox a (box s) (clampMouse (cx - c_left d) (c_width d))
               (clampMouse (cy - c_top d) (c_height d))) = Inr b' \<longrightarrow>
         box (snd (onHandleMoveMoving E d cx cy s)) = b')"
  using initializeBox_order [of opts w h maxw maxh minw minh E d]
    constrained_with_ratio [of opts maxw maxh minw minh r E d hdl my b origin]
    constrained_without_ratio [of opts maxw maxh minw minh E d hdl my b origin]
    onHandleMoveMoving_box [of s a E d cy cx b']
  by blast

lemma get_Nil: "get [] k = JUndefined"
  by (simp add: get_def)

lemma get_Cons: "get ((k, v) # kv) k' = (if k = k' then v else get kv k')"
  by (simp add: get_def)

lemma dims_JObj: "dims (JObj kv) = Inr (get kv ''width'', get kv ''height'')"
  by (simp add: dims_def)

lemma ratio_options_get:
  "get ratio_options ''aspectRatio'' = JNum 2"
  "get ratio_options ''maxSize'' = JObj [(''width'', JNum 30), (''height'', JNull)]"
  "get ratio_options ''minSize'' = JObj [(''width'', JNull), (''height'', JNull)]"
  by (simp_all add: ratio_options_def example_converted_def put_def get_def)

lemma example_converted_get:
  "get example_converted ''aspectRatio'' = JNull"
  "get example_converted ''startSize'' = JObj [(''width'', JNum 50), (''height'', JNum 50)]"
  "get example_converted ''maxSize'' = JObj [(''width'', JNull), (''height'', JNull)]"
  "get example_converted ''minSize'' = JObj [(''width'', JNull), (''height'', JNull)]"
  by (simp_all add: example_converted_def get_def)

lemma handles_nth:
  "HANDLES ! 0 = \<lparr>position = (0, 0), constraints = [1, 0, 0, 1], direction = ''nw''\<rparr>"
  "HANDLES ! 1 = \<lparr>position = (1 / 2, 0), constraints = [1, 0, 0, 0], direction = ''n''\<rparr>"
  "HANDLES ! 3 = \<lparr>position = (1, 1 / 2), constraints = [0, 1, 0, 0], direction = ''e''\<rparr>"
  "HANDLES ! 4 = \<lparr>position = (1, 1), constraints = [0, 1, 1, 0], direction = ''se''\<rparr>"
  by (simp_all add: HANDLES_def)

lemma movable_simps:
  "TOP_MOVABLE \<lparr>position = p, constraints = [t, r, b, l], direction = dir\<rparr> = (t = 1)"
  "RIGHT_MOVABLE \<lparr>position = p, constraints = [t, r, b, l], direction = dir\<rparr> = (r = 1)"
  "BOTTOM_MOVABLE \<lparr>position = p, constraints = [t, r, b, l], direction = dir\<rparr> = (b = 1)"
  "LEFT_MOVABLE \<lparr>position = p, constraints = [t, r, b, l], direction = dir\<rparr> = (l = 1)"
  by (simp_all add: TOP_MOVABLE_def RIGHT_MOVABLE_def BOTTOM_MOVABLE_def LEFT_MOVABLE_def
      movable_def)

theorem constraint_order_witness:
  "dims (get example_converted ''startSize'') = Inr (JNum 50, JNum 50)
   \<and> dims (get example_converted ''maxSize'') = Inr (JNull, JNull)
   \<and> dims (get example_converted ''minSize'') = Inr (JNull, JNull)
   \<and> get example_converted ''aspectRatio'' = JNull
   \<and> dims (get ratio_options ''maxSize'') = Inr (JNum 30, JNull)
   \<and> dims (get ratio_options ''minSize'') = Inr (JNull, JNull)
   \<and> get ratio_options ''aspectRatio'' = JNum 2 \<and> (2 :: real) \<noteq> 0
   \<and> initializeBox example_constraints dom100 example_converted = Inr (Box 25 25 75 75)
   \<and> constrained example_constraints dom100 ratio_options (HANDLES ! 4) 40
        (Box 0 0 40 40, (0, 0)) = Inr (Box 0 0 30 80)
   \<and> constrained example_constraints dom100 example_converted (HANDLES ! 4) 40
        (Box 0 0 40 40, (0, 0)) = Inr (Box 0 0 40 40)
   \<and> box (snd (onHandleMoveMoving example_constraints dom100 60 90
                  (example_instance\<lparr>activeHandle :=
                     Some \<lparr>a_handle = HANDLES ! 4, originPoint = (0, 0),
                           originX = 25, originY = 25\<rparr>\<rparr>))) = Box 25 25 60 90"
proof -
  let ?a = "\<lparr>a_handle = HANDLES ! 4, originPoint = (0, 0), originX = 25, originY = 25\<rparr>"
  let ?s = "example_instance\<lparr>activeHandle := Some ?a\<rparr>"
  have h1: "dims (get example_converted ''startSize'') = Inr (JNum 50, JNum 50)"
    and h2: "dims (get example_converted ''maxSize'') = Inr (JNull, JNull)"
    and h3: "dims (get example_converted ''minSize'') = Inr (JNull, JNull)"
    and h4: "get example_converted ''aspectRatio'' = JNull"
    by (simp_all add: example_converted_get dims_JObj get_Cons)
  have h5: "dims (get ratio_options ''maxSize'') = Inr (JNum 30, JNull)"
    and h6: "dims (get ratio_options ''minSize'') = Inr (JNull, JNull)"
    and h7: "get ratio_options ''aspectRatio'' = JNum 2"
    by (simp_all add: ratio_options_get dims_JObj get_Cons)
  have m: "movedBox ?a (Box 25 25 75 75) 60 90 = (Box 25 25 60 90, (0, 0))"
    by (simp add: movedBox_def movedEdges_def isFlippedX_def isFlippedY_def flipped_def
        handles_nth movable_simps)
  have c: "clampMouse (60 - c_left dom100) (c_width dom100) = 60"
    "clampMouse (90 - c_top dom100) (c_height dom100) = 90"
    by (simp_all add: clampMouse_def dom100_def)
  have o: "options ?s = example_converted" "box ?s = Box 25 25 75 75" "activeHandle ?s = Some ?a"
    by (simp_all add: example_instance_eq)
  have nz: "(2 :: real) \<noteq> 0" by simp
  note ev = example_constraints_def ratioMode_def MULTI_AXIS_def handles_nth movable_simps
    constrainToRatio_def resize_def getAbsolutePoint_def width_def height_def clampTo_def
    dom100_def number_or_0_def move_def Let_def
  have "initializeBox example_constraints dom100 example_converted =
        (let n = toBoundary example_constraints (offsetWidth dom100) (offsetHeight dom100)
                   (1 / 2, 1 / 2)
                   (toSize example_constraints (as_real JNull) (as_real JNull) (as_real JNull)
                      (as_real JNull) (1 / 2, 1 / 2) (as_real (get example_converted ''aspectRatio''))
                      (toRatio example_constraints (as_real (get example_converted ''aspectRatio''))
                         (1 / 2, 1 / 2) None
                         (Box 0 0 (number_or_0 (JNum 50)) (number_or_0 (JNum 50)))))
         in Inr (move (Some (offsetWidth dom100 / 2 - width n / 2))
                   (Some (offsetHeight dom100 / 2 - height n / 2)) n))"
    using constraint_order [where opts = example_converted and w = "JNum 50" and h = "JNum 50"
        and maxw = JNull and maxh = JNull and minw = JNull and minh = JNull
        and E = example_constraints and d = dom100] h1 h2 h3
    by blast
  also have "\<dots> = Inr (Box 25 25 75 75)"
    by (simp add: ev h4 Box_def)
  finally have e1:
    "initializeBox example_constraints dom100 example_converted = Inr (Box 25 25 75 75)" .
  have "constrained example_constraints dom100 ratio_options (HANDLES ! 4) 40
          (Box 0 0 40 40, (0, 0)) =
        Inr (toBoundary example_constraints (offsetWidth dom100) (offsetHeight dom100) (0, 0)
               (toSize example_constraints (as_real (JNum 30)) (as_real JNull) (as_real JNull)
                  (as_real JNull) (0, 0) (Some 2)
                  (toRatio example_constraints (Some 2) (0, 0)
                     (Some (ratioMode (HANDLES ! 4) 2 (Box 0 0 40 40) 40)) (Box 0 0 40 40))))"
    using constraint_order [where opts = ratio_options and maxw = "JNum 30" and maxh = JNull
        and minw = JNull and minh = JNull and r = 2 and E = example_constraints and d = dom100
        and hdl = "HANDLES ! 4" and my = 40 and b = "Box 0 0 40 40" and origin = "(0, 0)"] h5 h6 h7 nz
    by blast
  also have "\<dots> = Inr (Box 0 0 30 80)"
    by (simp add: ev Box_def)
  finally have e2: "constrained example_constraints dom100 ratio_options (HANDLES ! 4) 40
          (Box 0 0 40 40, (0, 0)) = Inr (Box 0 0 30 80)" .
  have nr: "constrained example_constraints dom100 example_converted (HANDLES ! 4) y
          (B, (0, 0)) =
        Inr (toBoundary example_constraints (offsetWidth dom100) (offsetHeight dom100) (0, 0)
               (toSize example_constraints (as_real JNull) (as_real JNull) (as_real JNull)
                  (as_real JNull) (0, 0) None B))" for y B
    using constraint_order [where opts = example_converted and maxw = JNull and maxh = JNull
        and minw = JNull and minh = JNull and E = example_constraints and d = dom100
        and hdl = "HANDLES ! 4" and my = y and b = B and origin = "(0, 0)"] h2 h3 h4
    by blast
  have e3: "constrained example_constraints dom100 example_converted (HANDLES ! 4) 40
          (Box 0 0 40 40, (0, 0)) = Inr (Box 0 0 40 40)"
    unfolding nr by (simp add: ev Box_def)
  have k: "constrained example_constraints dom100 example_converted (HANDLES ! 4) 90
          (Box 25 25 60 90, (0, 0)) = Inr (Box 25 25 60 90)"
    unfolding nr by (simp add: ev Box_def)
  have e4: "box (snd (onHandleMoveMoving example_constraints dom100 60 90 ?s)) = Box 25 25 60 90"
    using constraint_order [where E = example_constraints and d = dom100 and s = ?s and a = ?a
        and cx = 60 and cy = 90 and b' = "Box 25 25 60 90"] o k m c
    by simp
  show ?thesis
    using h1 h2 h3 h4 h5 h6 h7 nz e1 e2 e3 e4 by blast
qed

subsection \<open>The mode of the ratio constraint\<close>














subsection \<open>The flip\<close>

lemma flipped_plain: "flipped False False (e1, e2, e3, e4) origin = (Box e1 e2 e3 e4, origin)"
  by (simp add: flipped_def)










subsection \<open>A new selection on the overlay\<close>

lemma redraw_keeps:
  "box (redraw s) = box s" "options (redraw s) = options s"
  "activeHandle (redraw s) = activeHandle s" "currentMove (redraw s) = currentMove s"
  "tmpBox (redraw s) = tmpBox s" "called (redraw s) = called s"
  by (simp_all add: redraw_def)

lemma fire_called:
  "\<exists>ms. called (snd (fire name d s)) = called s @ ms \<and> set ms \<subseteq> range (Callback name)"
  by (auto simp add: fire_def split: jsval.splits)

lemma onHandleMoveMoving_keeps:
  "tmpBox (snd (onHandleMoveMoving E d cx cy s)) = tmpBox s"
  "options (snd (onHandleMoveMoving E d cx cy s)) = options s"
  by (simp_all add: onHandleMoveMoving_def Let_def fire_keeps redraw_keeps
      split: option.splits sum.splits)

lemma onHandleMoveMoving_called:
  "\<exists>ms. called (snd (onHandleMoveMoving E d cx cy s)) = called s @ ms
        \<and> set ms \<subseteq> range (Callback ''onSelectMove'')"
proof (cases "activeHandle s")
  case None
  then show ?thesis by (simp add: onHandleMoveMoving_def)
next
  case (Some a)
  show ?thesis
  proof (cases "constrained E d (options s) (a_handle a)
                  (clampMouse (cy - c_top d) (c_height d))
                  (movedBox a (box s) (clampMouse (cx - c_left d) (c_width d))
                     (clampMouse (cy - c_top d) (c_height d)))")
    case (Inl e)
    then show ?thesis using Some by (simp add: onHandleMoveMoving_def Let_def)
  next
    case (Inr b)
    have "onHandleMoveMoving E d cx cy s = fire ''onSelectMove'' d (redraw (s\<lparr>box := b\<rparr>))"
      using Some Inr by (simp add: onHandleMoveMoving_def Let_def)
    then show ?thesis
      using fire_called [of "''onSelectMove''" d "redraw (s\<lparr>box := b\<rparr>)"]
      by (simp add: redraw_keeps)
  qed
qed

lemma overlay_onMouseMove_keeps:
  "tmpBox (overlay_onMouseMove E d cx cy s) = tmpBox s"
  "options (overlay_onMouseMove E d cx cy s) = options s"
  by (simp_all add: overlay_onMouseMove_def dispatchEvent_def onHandleMoveMoving_keeps
      split: option.splits)

lemma overlay_onMouseMove_called:
  "\<exists>ms. called (overlay_onMouseMove E d cx cy s) = called s @ ms
        \<and> set ms \<subseteq> range (Callback ''onSelectMove'')"
proof (cases "tmpBox s")
  case None
  then show ?thesis by (simp add: overlay_onMouseMove_def)
next
  case (Some t)
  then show ?thesis
    using onHandleMoveMoving_called [of E d cx cy s]
    by (simp add: overlay_onMouseMove_def dispatchEvent_def)
qed

lemma moves_keep:
  "tmpBox (fold (\<lambda>p. overlay_onMouseMove E d (fst p) (snd p)) moves s) = tmpBox s"
  "options (fold (\<lambda>p. overlay_onMouseMove E d (fst p) (snd p)) moves s) = options s"
  by (induction moves arbitrary: s) (simp_all add: overlay_onMouseMove_keeps)

lemma moves_called:
  "\<exists>ms. called (fold (\<lambda>p. overlay_onMouseMove E d (fst p) (snd p)) moves s) = called s @ ms
        \<and> set ms \<subseteq> range (Callback ''onSelectMove'')"
proof (induction moves arbitrary: s)
  case Nil
  then show ?case by simp
next
  case (Cons p moves)
  obtain m1 where m1: "called (overlay_onMouseMove E d (fst p) (snd p) s) = called s @ m1"
    "set m1 \<subseteq> range (Callback ''onSelectMove'')"
    using overlay_onMouseMove_called by blast
  obtain m2 where m2:
    "called (fold (\<lambda>p. overlay_onMouseMove E d (fst p) (snd p)) moves
               (overlay_onMouseMove E d (fst p) (snd p) s))
     = called (overlay_onMouseMove E d (fst p) (snd p) s) @ m2"
    "set m2 \<subseteq> range (Callback ''onSelectMove'')"
    using Cons.IH by blast
  have "called (fold (\<lambda>p. overlay_onMouseMove E d (fst p) (snd p)) (p # moves) s)
        = called s @ (m1 @ m2)"
    using m1 m2 by simp
  moreover have "set (m1 @ m2) \<subseteq> range (Callback ''onSelectMove'')"
    using m1 m2 by simp
  ultimately show ?case by blast
qed

lemma overlay_onMouseDown_keeps:
  "tmpBox (overlay_onMouseDown d cx cy s) = Some (box s)"
  "options (overlay_onMouseDown d cx cy s) = options s"
  "box (overlay_onMouseDown d cx cy s)
     = Box (cx - c_left d) (cy - c_top d) (cx - c_left d + 1) (cy - c_top d + 1)"
  by (simp_all add: overlay_onMouseDown_def Let_def dispatchEvent_def onHandleMoveStart_def
      fire_keeps split_beta)

lemma overlay_onMouseDown_called:
  assumes "get (options s) ''onSelectStart'' = JFun f"
  shows "called (overlay_onMouseDown d cx cy s)
         = called s @ [Callback ''onSelectStart''
                         (getValue d (overlay_onMouseDown d cx cy s) JNull)]"
proof -
  define s1 where
    "s1 = s\<lparr>tmpBox := Some (box s),
            box := Box (cx - c_left d) (cy - c_top d) (cx - c_left d + 1) (cy - c_top d + 1)\<rparr>"
  have d: "overlay_onMouseDown d cx cy s = snd (onHandleMoveStart d (HANDLES ! 4) s1)"
    by (simp add: overlay_onMouseDown_def Let_def dispatchEvent_def s1_def
        SOUTHEAST_HANDLE_IDX_def)
  have o: "get (options s1) ''onSelectStart'' = JFun f" using assms by (simp add: s1_def)
  define s2 where
    "s2 = s1\<lparr>activeHandle :=
               Some \<lparr>a_handle = HANDLES ! 4,
                     originPoint = (1 - fst (position (HANDLES ! 4)),
                                    1 - snd (position (HANDLES ! 4))),
                     originX = fst (getAbsolutePoint
                                      (1 - fst (position (HANDLES ! 4)),
                                       1 - snd (position (HANDLES ! 4))) (box s1)),
                     originY = snd (getAbsolutePoint
                                      (1 - fst (position (HANDLES ! 4)),
                                       1 - snd (position (HANDLES ! 4))) (box s1))\<rparr>\<rparr>"
  have st: "onHandleMoveStart d (HANDLES ! 4) s1 = fire ''onSelectStart'' d s2"
    by (simp add: onHandleMoveStart_def Let_def split_beta s2_def)
  have o2: "get (options s2) ''onSelectStart'' = JFun f" using o by (simp add: s2_def)
  have v2: "getValue d s2 JNull = getValue d s1 JNull"
    by (rule getValue_cong) (simp_all add: s2_def)
  have c: "called (snd (onHandleMoveStart d (HANDLES ! 4) s1))
           = called s1 @ [Callback ''onSelectStart'' (getValue d s1 JNull)]"
    unfolding st fire_fun [OF o2] by (simp add: v2) (simp add: s2_def)
  have v: "getValue d (snd (onHandleMoveStart d (HANDLES ! 4) s1)) JNull = getValue d s1 JNull"
    by (rule getValue_cong)
      (simp_all add: onHandleMoveStart_def Let_def fire_keeps split_beta)
  show ?thesis
    unfolding d c v by (simp add: s1_def)
qed

lemma overlay_onMouseUp_click:
  assumes "tmpBox s = Some saved" and "width (box s) = 1" and "height (box s) = 1"
  shows "box (overlay_onMouseUp d s) = saved" and "called (overlay_onMouseUp d s) = called s"
  using assms by (simp_all add: overlay_onMouseUp_def)

lemma overlay_onMouseUp_drag:
  assumes "tmpBox s = Some saved" and "\<not> (width (box s) = 1 \<and> height (box s) = 1)"
  shows "box (overlay_onMouseUp d s) = box s"
    and "get (options s) ''onSelectEnd'' = JFun f \<Longrightarrow>
         called (overlay_onMouseUp d s)
           = called s @ [Callback ''onSelectEnd'' (getValue d s JNull)]"
    and "get (options s) ''onSelectEnd'' = JNull \<Longrightarrow> called (overlay_onMouseUp d s) = called s"
proof -
  have u: "overlay_onMouseUp d s = snd (fire ''onSelectEnd'' d (s\<lparr>tmpBox := None\<rparr>))"
    using assms by (auto simp add: overlay_onMouseUp_def dispatchEvent_def onHandleMoveEnd_def)
  have v: "getValue d (s\<lparr>tmpBox := None\<rparr>) JNull = getValue d s JNull"
    by (rule getValue_cong) simp_all
  show "box (overlay_onMouseUp d s) = box s"
    by (simp add: u fire_keeps)
  show "called (overlay_onMouseUp d s)
           = called s @ [Callback ''onSelectEnd'' (getValue d s JNull)]"
    if "get (options s) ''onSelectEnd'' = JFun f"
  proof -
    have "get (options (s\<lparr>tmpBox := None\<rparr>)) ''onSelectEnd'' = JFun f" using that by simp
    from fire_fun [OF this, of d] show ?thesis by (simp add: u v)
  qed
  show "called (overlay_onMouseUp d s) = called s"
    if "get (options s) ''onSelectEnd'' = JNull"
  proof -
    have "get (options (s\<lparr>tmpBox := None\<rparr>)) ''onSelectEnd'' = JNull" using that by simp
    from fire_null [OF this, of d] show ?thesis by (simp add: u)
  qed
qed

text \<open>
  C3, as amended. A gesture on the overlay saves the rectangle at pointer-down and, when
  \<open>onSelectStart\<close> is configured, calls it there with the value of the new 1 by 1
  rectangle; the move steps call nothing but \<open>onSelectMove\<close>. If the rectangle is
  exactly 1 by 1 at pointer-up, the live rectangle is restored to the one saved at
  pointer-down and pointer-up calls nothing (no \<open>onSelectEnd\<close>). Otherwise the
  rectangle stays and the gesture ends as a resize does: \<open>onSelectEnd\<close> is called with
  the value when it is configured.
\<close>

theorem overlay_gesture_end:
  "let s0 = overlay_onMouseDown d (fst down) (snd down) s;
       s1 = fold (\<lambda>p. overlay_onMouseMove E d (fst p) (snd p)) moves s0;
       s2 = overlay_onMouseUp d s1
   in s2 = overlayGesture E d down moves s
      \<and> (\<forall>f. get (options s) ''onSelectStart'' = JFun f \<longrightarrow>
            called s0 = called s @ [Callback ''onSelectStart'' (getValue d s0 JNull)])
      \<and> (\<exists>ms. called s1 = called s0 @ ms \<and> set ms \<subseteq> range (Callback ''onSelectMove''))
      \<and> (width (box s1) = 1 \<and> height (box s1) = 1 \<longrightarrow>
            box s2 = box s \<and> called s2 = called s1)
      \<and> (\<not> (width (box s1) = 1 \<and> height (box s1) = 1) \<longrightarrow>
            box s2 = box s1
            \<and> (\<forall>f. get (options s) ''onSelectEnd'' = JFun f \<longrightarrow>
                  called s2 = called s1 @ [Callback ''onSelectEnd'' (getValue d s1 JNull)])
            \<and> (get (options s) ''onSelectEnd'' = JNull \<longrightarrow> called s2 = called s1))"
proof -
  define s0 where "s0 = overlay_onMouseDown d (fst down) (snd down) s"
  define s1 where "s1 = fold (\<lambda>p. overlay_onMouseMove E d (fst p) (snd p)) moves s0"
  define s2 where "s2 = overlay_onMouseUp d s1"
  have g: "s2 = overlayGesture E d down moves s"
    by (simp add: overlayGesture_def s2_def s1_def s0_def)
  have t: "tmpBox s1 = Some (box s)"
    by (simp add: s1_def s0_def moves_keep overlay_onMouseDown_keeps)
  have o: "options s1 = options s"
    by (simp add: s1_def s0_def moves_keep overlay_onMouseDown_keeps)
  have a: "\<forall>f. get (options s) ''onSelectStart'' = JFun f \<longrightarrow>
            called s0 = called s @ [Callback ''onSelectStart'' (getValue d s0 JNull)]"
    unfolding s0_def using overlay_onMouseDown_called by blast
  have b: "\<exists>ms. called s1 = called s0 @ ms \<and> set ms \<subseteq> range (Callback ''onSelectMove'')"
    unfolding s1_def by (rule moves_called)
  have c: "width (box s1) = 1 \<and> height (box s1) = 1 \<longrightarrow>
            box s2 = box s \<and> called s2 = called s1"
    unfolding s2_def using overlay_onMouseUp_click [OF t] by blast
  have e: "\<not> (width (box s1) = 1 \<and> height (box s1) = 1) \<longrightarrow>
            box s2 = box s1
            \<and> (\<forall>f. get (options s) ''onSelectEnd'' = JFun f \<longrightarrow>
                  called s2 = called s1 @ [Callback ''onSelectEnd'' (getValue d s1 JNull)])
            \<and> (get (options s) ''onSelectEnd'' = JNull \<longrightarrow> called s2 = called s1)"
    unfolding s2_def o [symmetric] using overlay_onMouseUp_drag [OF t] by blast
  show ?thesis
    unfolding Let_def s0_def [symmetric] s1_def [symmetric] s2_def [symmetric]
    using g a b c e by blast
qed

lemma example_down:
  "overlay_onMouseDown dom100 40 40 example_instance =
     example_instance
       \<lparr>box := Box 40 40 41 41, tmpBox := Some (Box 25 25 75 75),
        activeHandle := Some \<lparr>a_handle = HANDLES ! 4, originPoint = (0, 0),
                              originX = 40, originY = 40\<rparr>,
        called := [Callback ''onSelectStart''
                     (Some \<lparr>v_x = Finite 40, v_y = Finite 40,
                                   v_width = Finite 1, v_height = Finite 1\<rparr>)]\<rparr>"
  by (simp add: overlay_onMouseDown_def Let_def dispatchEvent_def onHandleMoveStart_def
      SOUTHEAST_HANDLE_IDX_def handles_nth getAbsolutePoint_def dom100_def fire_def
      example_instance_eq example_converted_def get_Cons getValue_def width_def height_def
      math_round_def)

lemma example_down_outside:
  "overlay_onMouseDown dom100 10 10 example_instance =
     example_instance
       \<lparr>box := Box 10 10 11 11, tmpBox := Some (Box 25 25 75 75),
        activeHandle := Some \<lparr>a_handle = HANDLES ! 4, originPoint = (0, 0),
                              originX = 10, originY = 10\<rparr>,
        called := [Callback ''onSelectStart''
                     (Some \<lparr>v_x = Finite 10, v_y = Finite 10,
                            v_width = Finite 1, v_height = Finite 1\<rparr>)]\<rparr>"
  by (simp add: overlay_onMouseDown_def Let_def dispatchEvent_def onHandleMoveStart_def
      SOUTHEAST_HANDLE_IDX_def handles_nth getAbsolutePoint_def dom100_def fire_def
      example_instance_eq example_converted_def get_Cons getValue_def width_def height_def
      math_round_def)

text \<open>
  C3 as it is stated, that no notification at all is fired for a gesture that ends with
  the 1 by 1 rectangle, fails on a click at \<open>(40,40)\<close>, and likewise on a click at
  \<open>(10,10)\<close>, a point outside the rectangle of the instance: the rectangle is restored,
  and \<open>onSelectStart\<close> has been called.
\<close>

theorem overlay_click_counterexample:
  "width (box (overlay_onMouseDown dom100 40 40 example_instance)) = 1
   \<and> height (box (overlay_onMouseDown dom100 40 40 example_instance)) = 1
   \<and> box (overlayGesture example_constraints dom100 (40, 40) [] example_instance)
       = box example_instance
   \<and> called example_instance = []
   \<and> called (overlayGesture example_constraints dom100 (40, 40) [] example_instance)
       = [Callback ''onSelectStart''
            (Some \<lparr>v_x = Finite 40, v_y = Finite 40,
                          v_width = Finite 1, v_height = Finite 1\<rparr>)]
   \<and> width (box (overlay_onMouseDown dom100 10 10 example_instance)) = 1
   \<and> height (box (overlay_onMouseDown dom100 10 10 example_instance)) = 1
   \<and> box (overlayGesture example_constraints dom100 (10, 10) [] example_instance)
       = box example_instance
   \<and> called (overlayGesture example_constraints dom100 (10, 10) [] example_instance)
       = [Callback ''onSelectStart''
            (Some \<lparr>v_x = Finite 10, v_y = Finite 10,
                          v_width = Finite 1, v_height = Finite 1\<rparr>)]"
  by (simp add: overlayGesture_def example_down example_down_outside overlay_onMouseUp_def
      width_def height_def)
    (simp add: example_instance_eq)

lemma example_move:
  "overlay_onMouseMove example_constraints dom100 60 90
     (overlay_onMouseDown dom100 40 40 example_instance) =
     example_instance
       \<lparr>box := Box 40 40 60 90, tmpBox := Some (Box 25 25 75 75),
        activeHandle := Some \<lparr>a_handle = HANDLES ! 4, originPoint = (0, 0),
                              originX = 40, originY = 40\<rparr>,
        called := [Callback ''onSelectStart''
                     (Some \<lparr>v_x = Finite 40, v_y = Finite 40,
                                   v_width = Finite 1, v_height = Finite 1\<rparr>),
                   Callback ''onSelectMove''
                     (Some \<lparr>v_x = Finite 40, v_y = Finite 40,
                                   v_width = Finite 20, v_height = Finite 50\<rparr>)],
        drawn := [\<lparr>r_x = 25, r_y = 25, r_width = 50, r_height = 50\<rparr>,
                  \<lparr>r_x = 40, r_y = 40, r_width = 20, r_height = 50\<rparr>]\<rparr>"
proof -
  let ?a = "\<lparr>a_handle = HANDLES ! 4, originPoint = (0, 0), originX = 40, originY = 40\<rparr>"
  have m: "movedBox ?a (Box 40 40 41 41) 60 90 = (Box 40 40 60 90, (0, 0))"
    by (simp add: movedBox_def movedEdges_def isFlippedX_def isFlippedY_def flipped_def
        handles_nth movable_simps)
  have "constrained example_constraints dom100 example_converted (HANDLES ! 4) 90
          (Box 40 40 60 90, (0, 0)) =
        Inr (toBoundary example_constraints (offsetWidth dom100) (offsetHeight dom100) (0, 0)
               (toSize example_constraints (as_real JNull) (as_real JNull) (as_real JNull)
                  (as_real JNull) (0, 0) None (Box 40 40 60 90)))"
    by (rule constrained_without_ratio)
      (simp_all add: example_converted_get dims_JObj get_Cons)
  also have "\<dots> = Inr (Box 40 40 60 90)"
    by (simp add: example_constraints_def resize_def getAbsolutePoint_def width_def height_def
        clampTo_def dom100_def Box_def)
  finally have c: "constrained example_constraints dom100 example_converted (HANDLES ! 4) 90
             (Box 40 40 60 90, (0, 0)) = Inr (Box 40 40 60 90)" .
  have k: "clampMouse (60 - c_left dom100) (c_width dom100) = 60"
    "clampMouse (90 - c_top dom100) (c_height dom100) = 90"
    by (simp_all add: clampMouse_def dom100_def)
  show ?thesis
    unfolding example_down
    by (simp add: overlay_onMouseMove_def dispatchEvent_def onHandleMoveMoving_def Let_def
        example_instance_eq k m c)
      (simp add: fire_def redraw_def example_converted_def get_Cons getValue_def width_def
        height_def math_round_def)
qed

theorem overlay_gesture_end_witness:
  "get (options example_instance) ''onSelectStart'' = JFun ''start''
   \<and> get (options example_instance) ''onSelectEnd'' = JFun ''end''
   \<and> width (box (overlay_onMouseDown dom100 40 40 example_instance)) = 1
   \<and> height (box (overlay_onMouseDown dom100 40 40 example_instance)) = 1
   \<and> box (overlayGesture example_constraints dom100 (40, 40) [] example_instance)
       = box example_instance
   \<and> \<not> (width (box (overlay_onMouseMove example_constraints dom100 60 90
                        (overlay_onMouseDown dom100 40 40 example_instance))) = 1
        \<and> height (box (overlay_onMouseMove example_constraints dom100 60 90
                          (overlay_onMouseDown dom100 40 40 example_instance))) = 1)
   \<and> box (overlayGesture example_constraints dom100 (40, 40) [(60, 90)] example_instance)
       = Box 40 40 60 90
   \<and> called (overlayGesture example_constraints dom100 (40, 40) [(60, 90)] example_instance)
       = [Callback ''onSelectStart'' (Some \<lparr>v_x = Finite 40, v_y = Finite 40,
                                                   v_width = Finite 1, v_height = Finite 1\<rparr>),
          Callback ''onSelectMove'' (Some \<lparr>v_x = Finite 40, v_y = Finite 40,
                                                  v_width = Finite 20, v_height = Finite 50\<rparr>),
          Callback ''onSelectEnd'' (Some \<lparr>v_x = Finite 40, v_y = Finite 40,
                                                 v_width = Finite 20, v_height = Finite 50\<rparr>)]"
proof -
  let ?s0 = "overlay_onMouseDown dom100 40 40 example_instance"
  let ?s1 = "overlay_onMouseMove example_constraints dom100 60 90 ?s0"
  have o: "get (options example_instance) ''onSelectStart'' = JFun ''start''"
    "get (options example_instance) ''onSelectEnd'' = JFun ''end''"
    by (rule example_instance_get)+
  have w0: "width (box ?s0) = 1 \<and> height (box ?s0) = 1"
    by (simp add: example_down width_def height_def)
  have w1: "\<not> (width (box ?s1) = 1 \<and> height (box ?s1) = 1)"
    by (simp add: example_move width_def height_def)
  have f0: "fold (\<lambda>p. overlay_onMouseMove example_constraints dom100 (fst p) (snd p)) []
              (overlay_onMouseDown dom100 (fst (40, 40)) (snd (40, 40)) example_instance) = ?s0"
    and f1: "fold (\<lambda>p. overlay_onMouseMove example_constraints dom100 (fst p) (snd p)) [(60, 90)]
              (overlay_onMouseDown dom100 (fst (40, 40)) (snd (40, 40)) example_instance) = ?s1"
    by simp_all
  note click = overlay_gesture_end [where d = dom100 and down = "(40, 40)" and moves = "[]"
      and s = example_instance and E = example_constraints, unfolded Let_def f0]
  note drag = overlay_gesture_end [where d = dom100 and down = "(40, 40)" and moves = "[(60, 90)]"
      and s = example_instance and E = example_constraints, unfolded Let_def f1]
  have g0: "overlayGesture example_constraints dom100 (40, 40) [] example_instance
              = overlay_onMouseUp dom100 ?s0"
    and g1: "overlayGesture example_constraints dom100 (40, 40) [(60, 90)] example_instance
              = overlay_onMouseUp dom100 ?s1"
    by (simp_all add: overlayGesture_def)
  have b0: "box (overlayGesture example_constraints dom100 (40, 40) [] example_instance)
              = box example_instance"
    unfolding g0 using click w0 by blast
  have b1: "box (overlay_onMouseUp dom100 ?s1) = box ?s1"
    using drag w1 by blast
  have c1: "called (overlay_onMouseUp dom100 ?s1)
              = called ?s1 @ [Callback ''onSelectEnd'' (getValue dom100 ?s1 JNull)]"
    using drag w1 o by blast
  have v: "getValue dom100 ?s1 JNull
             = Some \<lparr>v_x = Finite 40, v_y = Finite 40,
                            v_width = Finite 20, v_height = Finite 50\<rparr>"
    unfolding example_move
    by (simp add: getValue_def example_instance_eq example_converted_def get_Cons width_def
        height_def math_round_def)
  have b2: "box (overlayGesture example_constraints dom100 (40, 40) [(60, 90)] example_instance)
              = Box 40 40 60 90"
    unfolding g1 b1 by (simp add: example_move)
  have c2: "called (overlayGesture example_constraints dom100 (40, 40) [(60, 90)] example_instance)
       = [Callback ''onSelectStart'' (Some \<lparr>v_x = Finite 40, v_y = Finite 40,
                                                   v_width = Finite 1, v_height = Finite 1\<rparr>),
          Callback ''onSelectMove'' (Some \<lparr>v_x = Finite 40, v_y = Finite 40,
                                                  v_width = Finite 20, v_height = Finite 50\<rparr>),
          Callback ''onSelectEnd'' (Some \<lparr>v_x = Finite 40, v_y = Finite 40,
                                                 v_width = Finite 20, v_height = Finite 50\<rparr>)]"
    unfolding g1 c1 v by (simp add: example_move)
  show ?thesis
    using o w0 w1 b0 b2 c2 by blast
qed

subsection \<open>Parsing the options\<close>

lemma get_put: "get (put k v obj) k' = (if k' = k then v else get obj k')"
  by (simp add: get_def put_def update_conv')

lemma get_delete: "get (AList.delete k obj) k' = (if k' = k then JUndefined else get obj k')"
  by (simp add: get_def delete_conv')

lemma parseSize_object:
  "v \<noteq> JUndefined \<Longrightarrow> v \<noteq> JNull \<Longrightarrow>
   defaultValue (parseSize v u) dflt =
     JObj [(''width'', js_or (index v 0) JNull), (''height'', js_or (index v 1) JNull),
           (''unit'', js_or (index v 2) (JStr u))]"
  by (simp add: parseSize_def defaultValue_def)

lemma parseOptions_size:
  assumes "parseOptions opts = Inr p"
  shows "get p ''maxSize'' = defaultValue (parseSize (get opts ''maxSize'') ''px'')
                               (JObj [(''width'', JNull), (''height'', JNull)])"
    and "get p ''minSize'' = defaultValue (parseSize (get opts ''minSize'') ''px'')
                               (JObj [(''width'', JNull), (''height'', JNull)])"
    and "get p ''startSize'' = defaultValue (parseSize (get opts ''startSize'') ''%'')
                                 (JObj [(''width'', JNum 100), (''height'', JNum 100),
                                        (''unit'', JStr ''%'')])"
proof -
  from assms obtain rm where
    "p = [(''aspectRatio'', defaultValue (parseAspectRatio (get opts ''aspectRatio'')) JNull),
          (''maxSize'', defaultValue (parseSize (get opts ''maxSize'') ''px'')
             (JObj [(''width'', JNull), (''height'', JNull)])),
          (''minSize'', defaultValue (parseSize (get opts ''minSize'') ''px'')
             (JObj [(''width'', JNull), (''height'', JNull)])),
          (''startSize'', defaultValue (parseSize (get opts ''startSize'') ''%'')
             (JObj [(''width'', JNum 100), (''height'', JNum 100), (''unit'', JStr ''%'')])),
          (''returnMode'', defaultValue rm (JStr ''real'')),
          (''onInitialize'', defaultValue (parseCallback (get opts ''onInitialize'')) JNull),
          (''onSelectStart'', defaultValue (parseCallback (get opts ''onSelectStart'')) JNull),
          (''onSelectMove'', defaultValue (parseCallback (get opts ''onSelectMove'')) JNull),
          (''onSelectEnd'', defaultValue (parseCallback (get opts ''onSelectEnd'')) JNull),
          (''convertToPixels'', JFun ''convertToPixels'')]"
    unfolding parseOptions_def Let_def by (cases "parseReturnMode (get opts ''returnMode'')") auto
  then show "get p ''maxSize'' = defaultValue (parseSize (get opts ''maxSize'') ''px'')
                               (JObj [(''width'', JNull), (''height'', JNull)])"
    and "get p ''minSize'' = defaultValue (parseSize (get opts ''minSize'') ''px'')
                               (JObj [(''width'', JNull), (''height'', JNull)])"
    and "get p ''startSize'' = defaultValue (parseSize (get opts ''startSize'') ''%'')
                                 (JObj [(''width'', JNum 100), (''height'', JNum 100),
                                        (''unit'', JStr ''%'')])"
    by (simp_all add: get_Cons)
qed

lemma js_or_zero: "js_or (JNum 0) JNull = JNull"
  by (simp add: js_or_def)

lemma convertSize_object:
  "\<exists>kv'. convertSize d (JObj kv) = Inr (JObj kv')
         \<and> (get kv ''width'' = JNull \<longrightarrow> get kv' ''width'' = JNull)
         \<and> (get kv ''height'' = JNull \<longrightarrow> get kv' ''height'' = JNull)"
  by (simp add: convertSize_def Let_def get_put get_delete)

lemma convertToPixels_get:
  assumes "convertToPixels d this = Inr q"
    and "key = ''maxSize'' \<or> key = ''minSize'' \<or> key = ''startSize''"
  shows "convertSize d (get this key) = Inr (get q key)"
proof -
  from assms(1) obtain v1 v2 v3 where
    v1: "convertSize d (get this ''maxSize'') = Inr v1"
    and v2: "convertSize d (get (put ''maxSize'' v1 this) ''minSize'') = Inr v2"
    and v3: "convertSize d (get (put ''minSize'' v2 (put ''maxSize'' v1 this)) ''startSize'')
               = Inr v3"
    and q: "q = put ''startSize'' v3 (put ''minSize'' v2 (put ''maxSize'' v1 this))"
    by (auto simp add: convertToPixels_def split: sum.splits)
  have g1: "get q ''maxSize'' = v1" and g2: "get q ''minSize'' = v2"
    and g3: "get q ''startSize'' = v3"
    by (simp_all add: q get_put)
  have w2: "convertSize d (get this ''minSize'') = Inr v2"
    using v2 by (simp add: get_put)
  have w3: "convertSize d (get this ''startSize'') = Inr v3"
    using v3 by (simp add: get_put)
  show ?thesis
    using assms(2) v1 w2 w3 g1 g2 g3 by auto
qed

text \<open>
  C10. For each of \<open>maxSize\<close>, \<open>minSize\<close> and \<open>startSize\<close> that is given, the parsed
  entry has the width \<open>value[0] || null\<close> and the height \<open>value[1] || null\<close>: a width or
  height equal to 0 becomes \<open>null\<close>. The conversion to pixels leaves a \<open>null\<close> as it
  is, and the geometry reads it as no bound rather than as a bound of zero pixels.
\<close>

theorem zero_size_entry_is_null:
  assumes "parseOptions opts = Inr p"
    and "key = ''maxSize'' \<or> key = ''minSize'' \<or> key = ''startSize''"
    and "get opts key \<noteq> JUndefined" and "get opts key \<noteq> JNull"
  shows "let w = js_or (index (get opts key) 0) JNull;
             h = js_or (index (get opts key) 1) JNull
         in dims (get p key) = Inr (w, h)
            \<and> (index (get opts key) 0 = JNum 0 \<longrightarrow> w = JNull \<and> as_real w = None)
            \<and> (index (get opts key) 1 = JNum 0 \<longrightarrow> h = JNull \<and> as_real h = None)
            \<and> (\<forall>q. convertToPixels d p = Inr q \<longrightarrow>
                  (\<exists>w' h'. dims (get q key) = Inr (w', h')
                     \<and> (w = JNull \<longrightarrow> w' = JNull) \<and> (h = JNull \<longrightarrow> h' = JNull)))"
proof -
  define v where "v = get opts key"
  define w where "w = js_or (index v 0) JNull"
  define h where "h = js_or (index v 1) JNull"
  have "\<exists>u. get p key = JObj [(''width'', w), (''height'', h), (''unit'', u)]"
    using assms(2-4) parseOptions_size [OF assms(1)]
    by (auto simp add: parseSize_object v_def w_def h_def)
  then obtain u where g: "get p key = JObj [(''width'', w), (''height'', h), (''unit'', u)]"
    by blast
  have a: "dims (get p key) = Inr (w, h)"
    by (simp add: g dims_JObj get_Cons)
  have b: "index v 0 = JNum 0 \<longrightarrow> w = JNull \<and> as_real w = None"
    by (simp add: w_def js_or_zero)
  have c: "index v 1 = JNum 0 \<longrightarrow> h = JNull \<and> as_real h = None"
    by (simp add: h_def js_or_zero)
  have e: "\<exists>w' h'. dims (get q key) = Inr (w', h')
              \<and> (w = JNull \<longrightarrow> w' = JNull) \<and> (h = JNull \<longrightarrow> h' = JNull)"
    if q: "convertToPixels d p = Inr q" for q
  proof -
    from convertSize_object [of d "[(''width'', w), (''height'', h), (''unit'', u)]"]
    obtain kv' where k: "convertSize d (get p key) = Inr (JObj kv')"
      and kw: "w = JNull \<longrightarrow> get kv' ''width'' = JNull"
      and kh: "h = JNull \<longrightarrow> get kv' ''height'' = JNull"
      unfolding g by (auto simp add: get_Cons)
    have "get q key = JObj kv'"
      using convertToPixels_get [OF q assms(2)] k by simp
    then show ?thesis
      using kw kh by (simp add: dims_JObj)
  qed
  show ?thesis
    unfolding Let_def v_def [symmetric] w_def [symmetric] h_def [symmetric]
    using a b c e by blast
qed

theorem zero_size_entry_is_null_witness:
  "parseOptions [(''maxSize'', JArr [JNum 0, JNum 50])] =
     Inr [(''aspectRatio'', JNull),
          (''maxSize'', JObj [(''width'', JNull), (''height'', JNum 50), (''unit'', JStr ''px'')]),
          (''minSize'', JObj [(''width'', JNull), (''height'', JNull)]),
          (''startSize'', JObj [(''width'', JNum 100), (''height'', JNum 100),
                                (''unit'', JStr ''%'')]),
          (''returnMode'', JStr ''real''),
          (''onInitialize'', JNull),
          (''onSelectStart'', JNull),
          (''onSelectMove'', JNull),
          (''onSelectEnd'', JNull),
          (''convertToPixels'', JFun ''convertToPixels'')]
   \<and> get [(''maxSize'', JArr [JNum 0, JNum 50])] ''maxSize'' \<noteq> JUndefined
   \<and> get [(''maxSize'', JArr [JNum 0, JNum 50])] ''maxSize'' \<noteq> JNull
   \<and> index (get [(''maxSize'', JArr [JNum 0, JNum 50])] ''maxSize'') 0 = JNum 0
   \<and> dims (get [(''aspectRatio'', JNull),
                   (''maxSize'', JObj [(''width'', JNull), (''height'', JNum 50),
                                       (''unit'', JStr ''px'')]),
                   (''minSize'', JObj [(''width'', JNull), (''height'', JNull)]),
                   (''startSize'', JObj [(''width'', JNum 100), (''height'', JNum 100),
                                         (''unit'', JStr ''%'')]),
                   (''returnMode'', JStr ''real''),
                   (''onInitialize'', JNull),
                   (''onSelectStart'', JNull),
                   (''onSelectMove'', JNull),
                   (''onSelectEnd'', JNull),
                   (''convertToPixels'', JFun ''convertToPixels'')] ''maxSize'')
       = Inr (JNull, JNum 50)"
proof -
  let ?opts = "[(''maxSize'', JArr [JNum 0, JNum 50])]"
  have g: "get ?opts ''maxSize'' = JArr [JNum 0, JNum 50]"
    by (simp add: get_Cons)
  have p: "parseOptions ?opts =
     Inr [(''aspectRatio'', JNull),
          (''maxSize'', JObj [(''width'', JNull), (''height'', JNum 50), (''unit'', JStr ''px'')]),
          (''minSize'', JObj [(''width'', JNull), (''height'', JNull)]),
          (''startSize'', JObj [(''width'', JNum 100), (''height'', JNum 100),
                                (''unit'', JStr ''%'')]),
          (''returnMode'', JStr ''real''),
          (''onInitialize'', JNull),
          (''onSelectStart'', JNull),
          (''onSelectMove'', JNull),
          (''onSelectEnd'', JNull),
          (''convertToPixels'', JFun ''convertToPixels'')]"
    by (simp add: parseOptions_def parseReturnMode_def get_Cons get_Nil parseSize_def
        parseCallback_def parseAspectRatio_def defaultValue_def js_or_def)
  have i: "index (get ?opts ''maxSize'') 0 = JNum 0"
    by (simp add: g)
  have d: "dims (get p ''maxSize'') = Inr (JNull, JNum 50)"
    if "parseOptions ?opts = Inr p" for p
    using zero_size_entry_is_null [OF that, of "''maxSize''"] g
    by (simp add: Let_def js_or_def)
  show ?thesis
    using p g i d [OF p] by simp
qed

subsection \<open>An invalid return mode\<close>

lemma parseOptions_invalid:
  assumes "get opts ''returnMode'' = JStr str"
    and "toLowerCase str \<notin> set [''real'', ''ratio'', ''raw'']"
  shows "parseOptions opts = Inl InvalidReturnMode"
proof -
  have "parseReturnMode (get opts ''returnMode'') = Inl InvalidReturnMode"
    using assms by (simp add: parseReturnMode_def Let_def)
  then show ?thesis
    by (simp add: parseOptions_def Let_def)
qed

lemma newCore_invalid:
  assumes "get opts ''returnMode'' = JStr str"
    and "toLowerCase str \<notin> set [''real'', ''ratio'', ''raw'']"
  shows "newCore E d opts = Inl InvalidReturnMode"
  by (simp add: newCore_def parseOptions_invalid [OF assms])

lemma setOptions_invalid:
  assumes "get (assign (options s) opts) ''returnMode'' = JStr str"
    and "toLowerCase str \<notin> set [''real'', ''ratio'', ''raw'']"
  shows "setOptions E d opts s = (Threw InvalidReturnMode, s\<lparr>options := assign (options s) opts\<rparr>)"
  by (simp add: setOptions_def Let_def parseOptions_invalid [OF assms])

lemma bogus_invalid: "toLowerCase ''bogus'' \<notin> set [''real'', ''ratio'', ''raw'']"
  by (simp add: toLowerCase_def lower_char_def)

text \<open>
  C4, at an invalid return mode. The constructor throws and leaves no instance.
  \<open>setOptions({returnMode: 'bogus'})\<close> on the example instance throws as well, but
  \<open>Object.assign\<close> has written the entry into the options of the instance before
  \<open>parseOptions\<close> rejects it: the options are no longer the prior ones, the return mode
  is \<open>'bogus'\<close>, and \<open>getValue()\<close>, which gave a value before, gives \<open>undefined\<close>.
\<close>

theorem setOptions_invalid_returnMode:
  "newCore example_constraints dom100 [(''returnMode'', JStr ''bogus'')] = Inl InvalidReturnMode
   \<and> setOptions example_constraints dom100 [(''returnMode'', JStr ''bogus'')] example_instance
       = (Threw InvalidReturnMode,
          example_instance\<lparr>options := put ''returnMode'' (JStr ''bogus'')
                                          (options example_instance)\<rparr>)
   \<and> get (options example_instance) ''returnMode'' = JStr ''raw''
   \<and> get (options (snd (setOptions example_constraints dom100
                            [(''returnMode'', JStr ''bogus'')] example_instance)))
         ''returnMode'' = JStr ''bogus''
   \<and> options (snd (setOptions example_constraints dom100
                       [(''returnMode'', JStr ''bogus'')] example_instance))
       \<noteq> options example_instance
   \<and> getValue dom100 example_instance JNull
       = Some \<lparr>v_x = Finite 25, v_y = Finite 25,
                      v_width = Finite 50, v_height = Finite 50\<rparr>
   \<and> getValue dom100
         (snd (setOptions example_constraints dom100
                 [(''returnMode'', JStr ''bogus'')] example_instance)) JNull = None"
proof -
  let ?opts = "[(''returnMode'', JStr ''bogus'')]"
  let ?s = "example_instance\<lparr>options := put ''returnMode'' (JStr ''bogus'')
                                          (options example_instance)\<rparr>"
  have a: "assign (options example_instance) ?opts
             = put ''returnMode'' (JStr ''bogus'') (options example_instance)"
    by (simp add: assign_def)
  have g: "get (assign (options example_instance) ?opts) ''returnMode'' = JStr ''bogus''"
    by (simp add: a get_put)
  have c: "newCore example_constraints dom100 ?opts = Inl InvalidReturnMode"
    by (rule newCore_invalid [OF _ bogus_invalid]) (simp add: get_Cons)
  have s: "setOptions example_constraints dom100 ?opts example_instance
             = (Threw InvalidReturnMode, ?s)"
    using setOptions_invalid [OF g bogus_invalid] by (simp add: a)
  have r0: "get (options example_instance) ''returnMode'' = JStr ''raw''"
    by (rule example_instance_get)
  have r1: "get (options ?s) ''returnMode'' = JStr ''bogus''"
    by (simp add: get_put)
  have ne: "options ?s \<noteq> options example_instance"
    using r0 r1 by auto
  have v0: "getValue dom100 example_instance JNull
              = Some \<lparr>v_x = Finite 25, v_y = Finite 25,
                             v_width = Finite 50, v_height = Finite 50\<rparr>"
    by (simp add: getValue_def r0 example_instance_get width_def height_def math_round_def)
  have v1: "getValue dom100 ?s JNull = None"
    by (simp add: getValue_def get_put)
  show ?thesis
    unfolding s using c r0 r1 ne v0 v1 by simp
qed

end
